theory Spec2Isabelle
  imports Main
begin

section \<open>Exceptions as values\<close>

text \<open>
  The TypeScript of \<^verbatim>\<open>src/app/posts/utils.ts\<close> has no \<^verbatim>\<open>try\<close>: whatever a
  built-in or a library call throws leaves the function. A computation that may throw is
  a value of \<open>error + 'a\<close>, \<open>Inl\<close> carrying the exception.
\<close>

datatype error =
    ENOENT        \<comment> \<open>\<^verbatim>\<open>fs.readdir\<close> / \<^verbatim>\<open>fs.readFile\<close>: no such file or directory\<close>
  | EISDIR        \<comment> \<open>\<^verbatim>\<open>fs.readFile\<close> on a directory\<close>
  | ENOTDIR       \<comment> \<open>a component of the path is not a directory\<close>
  | ERR_INVALID_ARG_VALUE  \<comment> \<open>\<^verbatim>\<open>fs.readFile\<close> of a path with a null byte\<close>
  | TypeError     \<comment> \<open>\<^verbatim>\<open>String(v)\<close>: cannot convert object to primitive value\<close>
  | RangeError    \<comment> \<open>\<^verbatim>\<open>toISOString\<close> of an invalid Date\<close>
  | OtherError string  \<comment> \<open>whatever gray-matter or the MDX compiler throws\<close>

definition bindE :: "error + 'a \<Rightarrow> ('a \<Rightarrow> error + 'b) \<Rightarrow> error + 'b" where
  "bindE m f = (case m of Inl e \<Rightarrow> Inl e | Inr x \<Rightarrow> f x)"

section \<open>The values a frontmatter block holds\<close>

text \<open>
  gray-matter hands \<^verbatim>\<open>data\<close> over as a plain object of untyped values; the code reads
  them as \<^verbatim>\<open>unknown\<close>. The model has the values a data block can hold: the
  primitives, Date objects (the time value in milliseconds, \<open>None\<close> for the NaN of an
  invalid Date), arrays, and plain objects as the list of their own properties.
  Strings are lists of \<open>char\<close>.

  A number is NaN, an infinity, zero, or \<open>Decimal negative s n\<close>: the sign, the decimal
  digits \<open>s\<close> (without a trailing zero) and the exponent \<open>n\<close> that identify a finite
  number other than zero, as \<^verbatim>\<open>Number::toString\<close> of ECMAScript reads them off it. With
  \<open>k\<close> the number of digits of \<open>s\<close>, the value is \<open>s * 10^(n - k)\<close>: 1.5 is
  \<open>Decimal False 15 1\<close>, 1200 is \<open>Decimal False 12 4\<close>, 1e21 is \<open>Decimal False 1 22\<close>.
  Negative zero is not told from zero: both are falsy and print as \<^verbatim>\<open>0\<close>.
\<close>

datatype jsnum = NaN | PosInfinity | NegInfinity | Zero | Decimal bool nat int

datatype jsval =
    JUndefined
  | JNull
  | JBool bool
  | JNum jsnum
  | JStr string
  | JDate "int option"
  | JArr "jsval list"
  | JObj "(string \<times> jsval) list"

type_synonym metadata = "(string \<times> jsval) list"

text \<open>\<^verbatim>\<open>fm.key\<close>: the own property, \<^verbatim>\<open>undefined\<close> when there is none.\<close>

definition getprop :: "metadata \<Rightarrow> string \<Rightarrow> jsval" where
  "getprop fm k = (case map_of fm k of None \<Rightarrow> JUndefined | Some v \<Rightarrow> v)"

text \<open>\<^verbatim>\<open>a ?? b\<close>: \<open>b\<close> only when \<open>a\<close> is \<^verbatim>\<open>undefined\<close> or \<^verbatim>\<open>null\<close>.\<close>

definition nullish :: "jsval \<Rightarrow> bool" where
  "nullish v = (v = JUndefined \<or> v = JNull)"

definition coalesce :: "jsval \<Rightarrow> jsval \<Rightarrow> jsval" where
  "coalesce a b = (if nullish a then b else a)"

text \<open>\<^verbatim>\<open>!v\<close>: the falsy values are undefined, null, false, 0, NaN and the empty string.\<close>

fun falsy :: "jsval \<Rightarrow> bool" where
  "falsy JUndefined = True"
| "falsy JNull = True"
| "falsy (JBool b) = (\<not> b)"
| "falsy (JNum n) = (n = NaN \<or> n = Zero)"
| "falsy (JStr s) = (s = [])"
| "falsy (JDate t) = False"
| "falsy (JArr xs) = False"
| "falsy (JObj ps) = False"

section \<open>Decimal digits\<close>

definition digit_char :: "nat \<Rightarrow> char" where
  "digit_char d = ''0123456789'' ! (d mod 10)"

text \<open>\<open>pad k n\<close>: the last \<open>k\<close> decimal digits of \<open>n\<close>, zero-padded on the left.\<close>

fun pad :: "nat \<Rightarrow> nat \<Rightarrow> string" where
  "pad 0 n = []"
| "pad (Suc k) n = pad k (n div 10) @ [digit_char n]"

fun show_nat :: "nat \<Rightarrow> string" where
  "show_nat n = (if n < 10 then [digit_char n] else show_nat (n div 10) @ [digit_char n])"

fun strip_zeros :: "nat \<Rightarrow> nat" where
  "strip_zeros n =
     (if n = 0 then 0 else if n mod 10 = 0 then strip_zeros (n div 10) else n)"

text \<open>
  The number an integer denotes (the numbers the examples use are written this way):
  its digits without the trailing zeros, and the number of its digits as exponent. (An
  integer beyond \<open>2^53\<close> need not be a number of the engine.)
\<close>

definition Finite :: "int \<Rightarrow> jsnum" where
  "Finite i =
     (if i = 0 then Zero
      else Decimal (i < 0) (strip_zeros (nat \<bar>i\<bar>)) (int (length (show_nat (nat \<bar>i\<bar>)))))"

text \<open>
  \<^verbatim>\<open>Number::toString\<close> in radix 10, on the digits \<open>ds\<close> of \<open>s\<close> and the exponent
  \<open>n\<close>: the digits followed by zeros when \<open>k \<le> n \<le> 21\<close>; a decimal point inside the
  digits when \<open>0 < n \<le> 21\<close>; \<^verbatim>\<open>0.\<close>, zeros and the digits when \<open>-6 < n \<le> 0\<close>;
  otherwise the exponential form, with the sign of \<open>n - 1\<close> written out.
\<close>

definition exponent_part :: "int \<Rightarrow> string" where
  "exponent_part e = ''e'' @ (if e < 0 then ''-'' else ''+'') @ show_nat (nat \<bar>e\<bar>)"

definition place_point :: "string \<Rightarrow> int \<Rightarrow> string" where
  "place_point ds n =
     (if int (length ds) \<le> n \<and> n \<le> 21 then ds @ replicate (nat (n - int (length ds))) (CHR ''0'')
      else if 0 < n \<and> n \<le> 21 then take (nat n) ds @ ''.'' @ drop (nat n) ds
      else if - 6 < n \<and> n \<le> 0 then ''0.'' @ replicate (nat (- n)) (CHR ''0'') @ ds
      else if length ds = 1 then ds @ exponent_part (n - 1)
      else take 1 ds @ ''.'' @ drop 1 ds @ exponent_part (n - 1))"

text \<open>\<^verbatim>\<open>String(n)\<close> of a number.\<close>

fun Number_toString :: "jsnum \<Rightarrow> string" where
  "Number_toString NaN = ''NaN''"
| "Number_toString PosInfinity = ''Infinity''"
| "Number_toString NegInfinity = ''-Infinity''"
| "Number_toString Zero = ''0''"
| "Number_toString (Decimal negative s n) =
     (if negative then ''-'' else []) @ place_point (show_nat s) n"

section \<open>Dates\<close>

text \<open>
  A time value is a number of milliseconds since 1970-01-01T00:00:00Z. The day number is
  turned into a proleptic Gregorian date by era arithmetic (eras of 400 years, 146097
  days, counted from 0000-03-01).
\<close>

definition day_of_era :: "int \<Rightarrow> int" where
  "day_of_era z = z - (z div 146097) * 146097"

definition year_of_era :: "int \<Rightarrow> int" where
  "year_of_era doe = (doe - doe div 1460 + doe div 36524 - doe div 146096) div 365"

definition day_of_year :: "int \<Rightarrow> int" where
  "day_of_year doe =
     doe - (365 * year_of_era doe + year_of_era doe div 4 - year_of_era doe div 100)"

definition month_index :: "int \<Rightarrow> int" where
  "month_index doy = (5 * doy + 2) div 153"

definition day_of_month :: "int \<Rightarrow> int" where
  "day_of_month doy = doy - (153 * month_index doy + 2) div 5 + 1"

definition month_of_year :: "int \<Rightarrow> int" where
  "month_of_year doy = (if month_index doy < 10 then month_index doy + 3 else month_index doy - 9)"

text \<open>\<open>civil_of_shifted z\<close>: year, month and day of the day \<open>z\<close> counted from 0000-03-01.\<close>

definition civil_of_shifted :: "int \<Rightarrow> int \<times> nat \<times> nat" where
  "civil_of_shifted z =
     (year_of_era (day_of_era z) + (z div 146097) * 400 +
        (if month_of_year (day_of_year (day_of_era z)) \<le> 2 then 1 else 0),
      nat (month_of_year (day_of_year (day_of_era z))),
      nat (day_of_month (day_of_year (day_of_era z))))"

definition civil_from_days :: "int \<Rightarrow> int \<times> nat \<times> nat" where
  "civil_from_days day = civil_of_shifted (day + 719468)"

text \<open>The inverse direction: the day number of a year, a month and a day of the month.\<close>

definition shifted_year :: "int \<Rightarrow> int \<Rightarrow> int" where
  "shifted_year y m = (if m \<le> 2 then y - 1 else y)"

definition shifted_day_of_year :: "int \<Rightarrow> int \<Rightarrow> int" where
  "shifted_day_of_year m d = (153 * (if m > 2 then m - 3 else m + 9) + 2) div 5 + d - 1"

definition days_of_shifted :: "int \<Rightarrow> int \<Rightarrow> int" where
  "days_of_shifted y doy =
     (y div 400) * 146097 +
     ((y - (y div 400) * 400) * 365 + (y - (y div 400) * 400) div 4
        - (y - (y div 400) * 400) div 100 + doy) - 719468"

definition days_from_civil :: "int \<Rightarrow> int \<Rightarrow> int \<Rightarrow> int" where
  "days_from_civil y m d = days_of_shifted (shifted_year y m) (shifted_day_of_year m d)"

definition msPerDay :: int where
  "msPerDay = 86400000"

text \<open>The year of \<^verbatim>\<open>toISOString\<close>: four digits from 0 to 9999, a sign and six digits otherwise.\<close>

definition year_string :: "int \<Rightarrow> string" where
  "year_string y =
     (if 0 \<le> y \<and> y \<le> 9999 then pad 4 (nat y)
      else (if y < 0 then ''-'' else ''+'') @ pad 6 (nat \<bar>y\<bar>))"

definition date_string :: "int \<Rightarrow> string" where
  "date_string day =
     (case civil_from_days day of (y, m, d) \<Rightarrow> year_string y @ ''-'' @ pad 2 m @ ''-'' @ pad 2 d)"

definition time_string :: "nat \<Rightarrow> string" where
  "time_string ms =
     pad 2 (ms div 3600000) @ '':'' @ pad 2 (ms div 60000 mod 60) @ '':'' @ pad 2 (ms div 1000 mod 60)"

text \<open>\<^verbatim>\<open>Date.prototype.toISOString\<close> on a valid time value: \<^verbatim>\<open>YYYY-MM-DDTHH:mm:ss.sssZ\<close>.\<close>

definition toISOString :: "int \<Rightarrow> string" where
  "toISOString t =
     date_string (t div msPerDay) @ ''T'' @ time_string (nat (t mod msPerDay)) @ ''.'' @
     pad 3 (nat (t mod msPerDay) mod 1000) @ ''Z''"

text \<open>\<^verbatim>\<open>d.toISOString()\<close> on a Date object: a RangeError when the time value is NaN.\<close>

definition Date_toISOString :: "int option \<Rightarrow> error + string" where
  "Date_toISOString tv = (case tv of None \<Rightarrow> Inl RangeError | Some t \<Rightarrow> Inr (toISOString t))"

text \<open>
  \<^verbatim>\<open>Date.prototype.toString\<close> in the UTC time zone:
  \<^verbatim>\<open>Thu Jan 01 1970 00:00:00 GMT+0000 (Coordinated Universal Time)\<close>. Day 0 was a Thursday.
\<close>

definition weekday_name :: "int \<Rightarrow> string" where
  "weekday_name day =
     [''Sun'', ''Mon'', ''Tue'', ''Wed'', ''Thu'', ''Fri'', ''Sat''] ! nat ((day + 4) mod 7)"

definition month_name :: "nat \<Rightarrow> string" where
  "month_name m =
     [''Jan'', ''Feb'', ''Mar'', ''Apr'', ''May'', ''Jun'',
      ''Jul'', ''Aug'', ''Sep'', ''Oct'', ''Nov'', ''Dec''] ! ((m - 1) mod 12)"

definition Date_toString_utc :: "int \<Rightarrow> string" where
  "Date_toString_utc t =
     (case civil_from_days (t div msPerDay) of (y, m, d) \<Rightarrow>
        weekday_name (t div msPerDay) @ '' '' @ month_name m @ '' '' @ pad 2 d @ '' '' @
        (if y < 0 then ''-'' else []) @ pad 4 (nat \<bar>y\<bar>) @ '' '' @
        time_string (nat (t mod msPerDay)) @ '' GMT+0000 (Coordinated Universal Time)'')"

subsection \<open>Parsing the date-time string format\<close>

definition digit_val :: "char \<Rightarrow> nat option" where
  "digit_val c = map_of (zip ''0123456789'' [0, 1, 2, 3, 4, 5, 6, 7, 8, 9]) c"

fun digits_acc :: "nat \<Rightarrow> string \<Rightarrow> nat option" where
  "digits_acc a [] = Some a"
| "digits_acc a (c # cs) =
     (case digit_val c of None \<Rightarrow> None | Some d \<Rightarrow> digits_acc (10 * a + d) cs)"

definition digits :: "string \<Rightarrow> nat option" where
  "digits s = (if s = [] then None else digits_acc 0 s)"

text \<open>\<^verbatim>\<open>YYYY-MM-DD\<close> at the head of \<open>s\<close>: the day number, when the fields are in range.\<close>

definition parse_ymd :: "string \<Rightarrow> int option" where
  "parse_ymd s =
     (if s ! 4 = CHR ''-'' \<and> s ! 7 = CHR ''-'' then
        case (digits (take 4 s), digits (take 2 (drop 5 s)), digits (take 2 (drop 8 s))) of
          (Some y, Some m, Some d) \<Rightarrow>
            if 1 \<le> m \<and> m \<le> 12 \<and> 1 \<le> d \<and> d \<le> 31
            then Some (days_from_civil (int y) (int m) (int d)) else None
        | _ \<Rightarrow> None
      else None)"

text \<open>\<^verbatim>\<open>THH:mm:ss.sssZ\<close> from position 10 of \<open>s\<close>: the milliseconds within the day.\<close>

definition parse_hms :: "string \<Rightarrow> int option" where
  "parse_hms s =
     (if s ! 10 = CHR ''T'' \<and> s ! 13 = CHR '':'' \<and> s ! 16 = CHR '':'' \<and> s ! 19 = CHR ''.'' \<and>
         s ! 23 = CHR ''Z'' then
        case (digits (take 2 (drop 11 s)), digits (take 2 (drop 14 s)),
              digits (take 2 (drop 17 s)), digits (take 3 (drop 20 s))) of
          (Some h, Some mi, Some se, Some ms) \<Rightarrow>
            if h \<le> 23 \<and> mi \<le> 59 \<and> se \<le> 59
            then Some (int (h * 3600000 + mi * 60000 + se * 1000 + ms)) else None
        | _ \<Rightarrow> None
      else None)"

text \<open>
  \<^verbatim>\<open>Date.parse\<close> restricted to the two forms of the ECMAScript date-time string format
  that frontmatter dates and \<^verbatim>\<open>toISOString\<close> use with a four-digit year: the date alone
  (read as UTC) and the full UTC form. Any other string is not a date (\<open>None\<close> for NaN).
  What an engine accepts beyond the standard format is its own choice, so the functions
  below take the parser from the environment; this one is the instance the closed
  examples run on.
\<close>

definition Date_parse_iso :: "string \<Rightarrow> int option" where
  "Date_parse_iso s =
     (if length s = 10 then
        (case parse_ymd s of Some day \<Rightarrow> Some (day * msPerDay) | None \<Rightarrow> None)
      else if length s = 24 then
        (case (parse_ymd s, parse_hms s) of
           (Some day, Some ms) \<Rightarrow> Some (day * msPerDay + ms)
         | _ \<Rightarrow> None)
      else None)"

subsection \<open>Lowercasing and trimming of ASCII strings\<close>

text \<open>
  \<^verbatim>\<open>toLowerCase\<close> and \<^verbatim>\<open>trim\<close> as they act on a string of ASCII characters: the
  letters A to Z, and the six ASCII white-space characters. On other characters the
  engine follows Unicode (it lowercases U+212A to \<^verbatim>\<open>k\<close> and trims U+00A0), which is why
  the functions below take both methods from the environment and use these two only in
  the examples, whose strings are ASCII.
\<close>

definition lower_char :: "char \<Rightarrow> char" where
  "lower_char c =
     (case map_of (zip ''ABCDEFGHIJKLMNOPQRSTUVWXYZ'' ''abcdefghijklmnopqrstuvwxyz'') c of
        Some l \<Rightarrow> l
      | None \<Rightarrow> c)"

definition toLowerCase_ascii :: "string \<Rightarrow> string" where
  "toLowerCase_ascii s = map lower_char s"

definition is_space :: "char \<Rightarrow> bool" where
  "is_space c = (c \<in> set [CHR 0x20, CHR 0x09, CHR 0x0A, CHR 0x0B, CHR 0x0C, CHR 0x0D])"

definition trim_ascii :: "string \<Rightarrow> string" where
  "trim_ascii s = rev (dropWhile is_space (rev (dropWhile is_space s)))"

section \<open>The environment: the engine's built-ins and the two libraries\<close>

text \<open>
  What is not code of the repository is a parameter: \<^verbatim>\<open>matter\<close> of gray-matter (from
  the text of a file to its data block and body), \<^verbatim>\<open>compileMDX\<close> of next-mdx-remote,
  \<^verbatim>\<open>Date.parse\<close>, the local-time \<^verbatim>\<open>Date.prototype.toString\<close>, and the Unicode
  string methods \<^verbatim>\<open>toLowerCase\<close> and \<^verbatim>\<open>trim\<close>. Both library calls may throw.
\<close>

record ('raw, 'tree) env =
  matter :: "'raw \<Rightarrow> error + (metadata \<times> string)"
  compileMDX :: "string \<Rightarrow> error + 'tree"
  Date_parse :: "string \<Rightarrow> int option"
  Date_toString :: "int \<Rightarrow> string"
  toLowerCase :: "string \<Rightarrow> string"
  trim :: "string \<Rightarrow> string"

text \<open>
  The environment of the closed examples: a file's text is the pair gray-matter would
  split it into, the compiled body is the body, dates are parsed by \<open>Date_parse_iso\<close>
  and printed in UTC, strings are lowercased and trimmed as ASCII.
\<close>

definition env0 :: "(metadata \<times> string, string) env" where
  "env0 = \<lparr> matter = Inr, compileMDX = Inr, Date_parse = Date_parse_iso,
            Date_toString = Date_toString_utc,
            toLowerCase = toLowerCase_ascii, trim = trim_ascii \<rparr>"

section \<open>String coercion\<close>

text \<open>
  \<^verbatim>\<open>String(v)\<close>. A primitive has its literal form; a Date prints by \<^verbatim>\<open>toString\<close>; an
  array joins its elements with commas, \<^verbatim>\<open>undefined\<close> and \<^verbatim>\<open>null\<close> elements printing
  as nothing; a plain object prints as \<^verbatim>\<open>[object Object]\<close> through
  \<^verbatim>\<open>Object.prototype.toString\<close>, unless it has an own property \<^verbatim>\<open>toString\<close>: data
  is never callable, \<^verbatim>\<open>valueOf\<close> returns the object itself (or is data as well), and the
  conversion throws a TypeError.
\<close>

fun JS_String :: "('raw, 'tree) env \<Rightarrow> jsval \<Rightarrow> error + string"
  and Array_join :: "('raw, 'tree) env \<Rightarrow> jsval list \<Rightarrow> error + string" where
  "JS_String E JUndefined = Inr ''undefined''"
| "JS_String E JNull = Inr ''null''"
| "JS_String E (JBool b) = Inr (if b then ''true'' else ''false'')"
| "JS_String E (JNum n) = Inr (Number_toString n)"
| "JS_String E (JStr s) = Inr s"
| "JS_String E (JDate tv) =
     Inr (case tv of None \<Rightarrow> ''Invalid Date'' | Some t \<Rightarrow> Date_toString E t)"
| "JS_String E (JArr xs) = Array_join E xs"
| "JS_String E (JObj ps) =
     (if map_of ps ''toString'' = None then Inr ''[object Object]'' else Inl TypeError)"
| "Array_join E [] = Inr []"
| "Array_join E (x # xs) =
     bindE (if nullish x then Inr [] else JS_String E x) (\<lambda>s.
       if xs = [] then Inr s
       else bindE (Array_join E xs) (\<lambda>r. Inr (s @ '','' @ r)))"

text \<open>\<^verbatim>\<open>xs.map(String)\<close>: the first conversion that throws ends the loop.\<close>

fun map_String :: "('raw, 'tree) env \<Rightarrow> jsval list \<Rightarrow> error + string list" where
  "map_String E [] = Inr []"
| "map_String E (x # xs) =
     bindE (JS_String E x) (\<lambda>s. bindE (map_String E xs) (\<lambda>r. Inr (s # r)))"

definition endsWith :: "string \<Rightarrow> string \<Rightarrow> bool" where
  "endsWith s suffix = (length suffix \<le> length s \<and> drop (length s - length suffix) s = suffix)"

text \<open>\<^verbatim>\<open>name.replace(/\.mdx$/, "")\<close>.\<close>

definition strip_mdx :: "string \<Rightarrow> string" where
  "strip_mdx name = (if endsWith name ''.mdx'' then take (length name - 4) name else name)"

section \<open>The two normalizers of \<^verbatim>\<open>utils.ts\<close>\<close>

definition ALL_CATEGORIES :: "string list" where
  "ALL_CATEGORIES = [''frontend'', ''backend'', ''infra'', ''etc'']"

definition normalizeDateToISO :: "('raw, 'tree) env \<Rightarrow> jsval \<Rightarrow> error + string" where
  "normalizeDateToISO E v =
     (if falsy v then Inr (toISOString 0)
      else case v of
        JDate tv \<Rightarrow> Date_toISOString tv
      | _ \<Rightarrow>
          bindE (JS_String E v) (\<lambda>asString.
            case Date_parse E asString of
              Some t \<Rightarrow> Inr (toISOString t)
            | None \<Rightarrow> Inr asString))"

definition normalizeCategory :: "('raw, 'tree) env \<Rightarrow> jsval \<Rightarrow> error + string" where
  "normalizeCategory E v =
     (if falsy v then Inr ''etc''
      else bindE (JS_String E v) (\<lambda>s.
        let asString = trim E (toLowerCase E s) in
        Inr (if asString \<in> set ALL_CATEGORIES then asString else ''etc'')))"

definition isValidCategory :: "string \<Rightarrow> bool" where
  "isValidCategory c = (c \<in> set ALL_CATEGORIES)"

section \<open>Frontmatter records and the inline normalization\<close>

record PostFrontMatter =
  title :: string
  createdAt :: string
  updatedAt :: string
  category :: string
  description :: "string option"
  tags :: "string list option"

record PostListItem =
  slug :: string
  frontMatter :: PostFrontMatter

text \<open>
  The object literal of \<^verbatim>\<open>listPosts\<close> (lines 75 to 88): the fields are evaluated in the
  order they are written, and the first coercion that throws ends the evaluation.
\<close>

definition listPosts_normalized :: "('raw, 'tree) env \<Rightarrow> metadata \<Rightarrow> error + PostFrontMatter" where
  "listPosts_normalized E fm =
     bindE (JS_String E (coalesce (getprop fm ''title'') (JStr ''Untitled''))) (\<lambda>t.
     bindE (normalizeDateToISO E (coalesce (getprop fm ''createdAt'') (getprop fm ''date''))) (\<lambda>c.
     bindE (normalizeDateToISO E
              (coalesce (coalesce (getprop fm ''updatedAt'') (getprop fm ''createdAt''))
                 (getprop fm ''date''))) (\<lambda>u.
     bindE (normalizeCategory E (getprop fm ''category'')) (\<lambda>cat.
     bindE (if falsy (getprop fm ''description'') then Inr None
            else map_sum id Some (JS_String E (getprop fm ''description''))) (\<lambda>d.
     bindE (case getprop fm ''tags'' of
              JArr xs \<Rightarrow> map_sum id Some (map_String E xs)
            | _ \<Rightarrow> Inr None) (\<lambda>tg.
     Inr \<lparr> title = t, createdAt = c, updatedAt = u, category = cat,
           description = d, tags = tg \<rparr>))))))"

text \<open>The object literal of \<^verbatim>\<open>getPostBySlug\<close> (lines 154 to 164).\<close>

definition getPostBySlug_normalized ::
    "('raw, 'tree) env \<Rightarrow> string \<Rightarrow> metadata \<Rightarrow> error + PostFrontMatter" where
  "getPostBySlug_normalized E slug_arg fm =
     bindE (JS_String E (coalesce (getprop fm ''title'') (JStr slug_arg))) (\<lambda>t.
     bindE (normalizeDateToISO E (coalesce (getprop fm ''createdAt'') (getprop fm ''date''))) (\<lambda>c.
     bindE (normalizeDateToISO E
              (coalesce (coalesce (getprop fm ''updatedAt'') (getprop fm ''createdAt''))
                 (getprop fm ''date''))) (\<lambda>u.
     bindE (normalizeCategory E (getprop fm ''category'')) (\<lambda>cat.
     bindE (if falsy (getprop fm ''description'') then Inr None
            else map_sum id Some (JS_String E (getprop fm ''description''))) (\<lambda>d.
     bindE (case getprop fm ''tags'' of
              JArr xs \<Rightarrow> map_sum id Some (map_String E xs)
            | _ \<Rightarrow> Inr None) (\<lambda>tg.
     Inr \<lparr> title = t, createdAt = c, updatedAt = u, category = cat,
           description = d, tags = tg \<rparr>))))))"

section \<open>The content directory\<close>

text \<open>
  What \<^verbatim>\<open>listPosts\<close> sees of the disk: \<^verbatim>\<open>src/content\<close> as a list of named entries in
  the order \<^verbatim>\<open>readdir\<close> lists them, or \<open>None\<close> when the directory is not there.
  Subdirectories are not descended into. The loop reads \<^verbatim>\<open>path.join(POSTS_DIR, file.name)\<close>
  for the name of a listed entry, which is that entry.
\<close>

datatype 'raw entry = File 'raw | Directory

type_synonym 'raw content_dir = "(string \<times> 'raw entry) list option"

definition readdir :: "'raw content_dir \<Rightarrow> error + (string \<times> 'raw entry) list" where
  "readdir dir = (case dir of None \<Rightarrow> Inl ENOENT | Some entries \<Rightarrow> Inr entries)"

fun isFile :: "string \<times> 'raw entry \<Rightarrow> bool" where
  "isFile (name, File raw) = True"
| "isFile (name, Directory) = False"

definition readFile :: "'raw content_dir \<Rightarrow> string \<Rightarrow> error + 'raw" where
  "readFile dir name =
     (case dir of
        None \<Rightarrow> Inl ENOENT
      | Some entries \<Rightarrow>
          (case map_of entries name of
             None \<Rightarrow> Inl ENOENT
           | Some Directory \<Rightarrow> Inl EISDIR
           | Some (File raw) \<Rightarrow> Inr raw))"

section \<open>Sorting\<close>

text \<open>
  \<^verbatim>\<open>a < b\<close> on two results of \<^verbatim>\<open>getTime()\<close>: false as soon as one is NaN.
\<close>

fun js_less :: "int option \<Rightarrow> int option \<Rightarrow> bool" where
  "js_less (Some x) (Some y) = (x < y)"
| "js_less a b = False"

text \<open>The comparator of line 96.\<close>

definition compare_posts :: "('raw, 'tree) env \<Rightarrow> PostListItem \<Rightarrow> PostListItem \<Rightarrow> int" where
  "compare_posts E a b =
     (if js_less (Date_parse E (createdAt (frontMatter a)))
                 (Date_parse E (createdAt (frontMatter b))) then 1 else - 1)"

text \<open>
  \<^verbatim>\<open>Array.prototype.sort\<close> as a stable insertion sort that reads only the sign of the
  comparator: each element moves in front of the first element it compares negative to.
  ECMAScript fixes the result only for a consistent comparator. On posts that all have a
  time the comparator above orders any two of them, and every sort that follows it puts
  them in descending order, as this one does; when a time is NaN the comparator is
  negative in both directions and the order is the engine's own, which the model does not
  claim to give.
\<close>

fun sort_insert :: "('a \<Rightarrow> 'a \<Rightarrow> int) \<Rightarrow> 'a \<Rightarrow> 'a list \<Rightarrow> 'a list" where
  "sort_insert cmp x [] = [x]"
| "sort_insert cmp x (y # ys) =
     (if cmp x y < 0 then x # y # ys else y # sort_insert cmp x ys)"

definition Array_sort :: "('a \<Rightarrow> 'a \<Rightarrow> int) \<Rightarrow> 'a list \<Rightarrow> 'a list" where
  "Array_sort cmp xs = foldl (\<lambda>sorted x. sort_insert cmp x sorted) [] xs"

section \<open>The query layer\<close>

text \<open>The loop of \<^verbatim>\<open>listPosts\<close> over the \<^verbatim>\<open>.mdx\<close> files, one \<^verbatim>\<open>push\<close> a file.\<close>

fun read_posts ::
    "('raw, 'tree) env \<Rightarrow> 'raw content_dir \<Rightarrow> (string \<times> 'raw entry) list \<Rightarrow> error + PostListItem list" where
  "read_posts E dir [] = Inr []"
| "read_posts E dir (file # files) =
     bindE (readFile dir (fst file)) (\<lambda>raw.
     bindE (matter E raw) (\<lambda>split.
     bindE (listPosts_normalized E (fst split)) (\<lambda>normalized.
     bindE (read_posts E dir files) (\<lambda>posts.
     Inr (\<lparr> slug = strip_mdx (fst file), frontMatter = normalized \<rparr> # posts)))))"

definition listPosts :: "('raw, 'tree) env \<Rightarrow> 'raw content_dir \<Rightarrow> error + PostListItem list" where
  "listPosts E dir =
     bindE (readdir dir) (\<lambda>entries.
     let mdxFiles = filter (\<lambda>e. isFile e \<and> endsWith (fst e) ''.mdx'') entries in
     bindE (read_posts E dir mdxFiles) (\<lambda>posts.
     Inr (Array_sort (compare_posts E) posts)))"

section \<open>The file system and \<^verbatim>\<open>path.join\<close>\<close>

text \<open>
  \<^verbatim>\<open>getPostBySlug\<close> joins a string it is given into a path, so it can reach any file of
  the disk. The disk is a tree of folders and regular files, with POSIX paths, names
  that are matched exactly and no symbolic links; a path is the list of its segments from
  the root; \<^verbatim>\<open>process.cwd()\<close> is such a path.
\<close>

datatype 'raw fsnode = RegularFile 'raw | Folder "(string \<times> 'raw fsnode) list"

record 'raw filesystem =
  root :: "'raw fsnode"
  cwd :: "string list"

text \<open>\<^verbatim>\<open>path.join(process.cwd(), "src", "content")\<close>.\<close>

definition POSTS_DIR :: "'raw filesystem \<Rightarrow> string list" where
  "POSTS_DIR fs = cwd fs @ [''src'', ''content'']"

text \<open>The segments of a string between its slashes.\<close>

fun split_slash :: "string \<Rightarrow> string list" where
  "split_slash [] = [[]]"
| "split_slash (c # cs) =
     (if c = CHR ''/'' then [] # split_slash cs
      else case split_slash cs of
             seg # segs \<Rightarrow> (c # seg) # segs
           | [] \<Rightarrow> [[c]])"

text \<open>
  The normalization of \<^verbatim>\<open>path.join\<close>, on the reversed path walked so far: an empty
  segment and \<^verbatim>\<open>.\<close> are dropped, \<^verbatim>\<open>..\<close> leaves the last folder (the root stays the
  root).
\<close>

fun normalize_path :: "string list \<Rightarrow> string list \<Rightarrow> string list" where
  "normalize_path walked [] = rev walked"
| "normalize_path walked (seg # segs) =
     (if seg = [] \<or> seg = ''.'' then normalize_path walked segs
      else if seg = ''..'' then normalize_path (tl walked) segs
      else normalize_path (seg # walked) segs)"

definition path_join :: "string list \<Rightarrow> string \<Rightarrow> string list" where
  "path_join base rel = normalize_path (rev base) (split_slash rel)"

fun fs_lookup :: "'raw fsnode \<Rightarrow> string list \<Rightarrow> error + 'raw fsnode" where
  "fs_lookup n [] = Inr n"
| "fs_lookup (RegularFile raw) (seg # segs) = Inl ENOTDIR"
| "fs_lookup (Folder entries) (seg # segs) =
     (case map_of entries seg of
        None \<Rightarrow> Inl ENOENT
      | Some n \<Rightarrow> fs_lookup n segs)"

text \<open>\<^verbatim>\<open>fs.readFile\<close> of a path: a path with a null byte is refused before the disk is read.\<close>

definition fs_readFile :: "'raw filesystem \<Rightarrow> string list \<Rightarrow> error + 'raw" where
  "fs_readFile fs path =
     (if CHR 0x00 \<in> set (concat path) then Inl ERR_INVALID_ARG_VALUE
      else bindE (fs_lookup (root fs) path) (\<lambda>n.
             case n of RegularFile raw \<Rightarrow> Inr raw | Folder entries \<Rightarrow> Inl EISDIR))"

text \<open>The content directory of a disk, as \<^verbatim>\<open>listPosts\<close> sees it.\<close>

definition entry_of :: "'raw fsnode \<Rightarrow> 'raw entry" where
  "entry_of n = (case n of RegularFile raw \<Rightarrow> File raw | Folder entries \<Rightarrow> Directory)"

definition content_dir_of :: "'raw filesystem \<Rightarrow> 'raw content_dir" where
  "content_dir_of fs =
     (case fs_lookup (root fs) (POSTS_DIR fs) of
        Inr (Folder entries) \<Rightarrow> Some (map (\<lambda>(name, n). (name, entry_of n)) entries)
      | _ \<Rightarrow> None)"

definition getPostSlugs :: "'raw content_dir \<Rightarrow> error + string list" where
  "getPostSlugs dir =
     bindE (readdir dir) (\<lambda>entries.
     Inr (map (\<lambda>e. strip_mdx (fst e))
            (filter (\<lambda>e. isFile e \<and> endsWith (fst e) ''.mdx'') entries)))"

record 'tree RenderedPost =
  post_frontMatter :: PostFrontMatter
  post_content :: 'tree

definition getPostBySlug ::
    "('raw, 'tree) env \<Rightarrow> 'raw filesystem \<Rightarrow> string \<Rightarrow> error + 'tree RenderedPost" where
  "getPostBySlug E fs slug_arg =
     bindE (fs_readFile fs (path_join (POSTS_DIR fs) (slug_arg @ ''.mdx''))) (\<lambda>raw.
     bindE (matter E raw) (\<lambda>split.
     bindE (compileMDX E (snd split)) (\<lambda>compiled.
     bindE (getPostBySlug_normalized E slug_arg (fst split)) (\<lambda>normalized.
     Inr \<lparr> post_frontMatter = normalized, post_content = compiled \<rparr>))))"

record CategoryCount =
  count_category :: string
  count :: nat

text \<open>The \<^verbatim>\<open>Map\<close> of \<^verbatim>\<open>listCategories\<close>: every category set to 0, then one increment a post.\<close>

definition counts_init :: "string \<rightharpoonup> nat" where
  "counts_init = fold (\<lambda>c counts. counts(c \<mapsto> 0)) ALL_CATEGORIES Map.empty"

definition counts_add :: "PostListItem \<Rightarrow> (string \<rightharpoonup> nat) \<Rightarrow> (string \<rightharpoonup> nat)" where
  "counts_add p counts =
     counts(category (frontMatter p) \<mapsto>
       (case counts (category (frontMatter p)) of None \<Rightarrow> 0 | Some n \<Rightarrow> n) + 1)"

definition listCategories :: "('raw, 'tree) env \<Rightarrow> 'raw content_dir \<Rightarrow> error + CategoryCount list" where
  "listCategories E dir =
     bindE (listPosts E dir) (\<lambda>posts.
     let counts = fold counts_add posts counts_init in
     Inr (map (\<lambda>c. \<lparr> count_category = c,
                      count = (case counts c of None \<Rightarrow> 0 | Some n \<Rightarrow> n) \<rparr>) ALL_CATEGORIES))"

definition listPostsByCategory ::
    "('raw, 'tree) env \<Rightarrow> 'raw content_dir \<Rightarrow> string \<Rightarrow> error + PostListItem list" where
  "listPostsByCategory E dir c =
     bindE (listPosts E dir) (\<lambda>posts.
     Inr (filter (\<lambda>p. category (frontMatter p) = c) posts))"

section \<open>The text of a code block (\<^verbatim>\<open>CodeBlock.tsx\<close>)\<close>

text \<open>
  A \<^verbatim>\<open>React.ReactNode\<close>: null, undefined, a string, a number, a boolean, an array of
  nodes, an element (its type and the \<^verbatim>\<open>children\<close> of its props, \<^verbatim>\<open>undefined\<close> when it
  has none), or anything else (a portal, an iterable that is not an array).
\<close>

datatype node =
    NNull
  | NUndefined
  | NString string
  | NNumber jsnum
  | NBoolean bool
  | NArray "node list"
  | NElement string node
  | NOther

fun extractText :: "node \<Rightarrow> string" where
  "extractText NNull = []"
| "extractText NUndefined = []"
| "extractText (NString s) = s"
| "extractText (NNumber n) = Number_toString n"
| "extractText (NArray nodes) = concat (map extractText nodes)"
| "extractText (NElement tag children) = extractText children"
| "extractText (NBoolean b) = []"
| "extractText NOther = []"

text \<open>
  The nesting of calls a node needs: one call for the node, and below an array or an
  element one more than its elements or children need.
\<close>

fun depth :: "node \<Rightarrow> nat" where
  "depth (NArray nodes) = Suc (foldr max (map depth nodes) 0)"
| "depth (NElement tag children) = Suc (depth children)"
| "depth n = Suc 0"

text \<open>
  The same function with the nesting of its calls bounded by \<open>k\<close>: \<open>None\<close> when a call
  would be nested deeper. \<^verbatim>\<open>map(extractText).join("")\<close> has a result when every element
  has one.
\<close>

fun extractText_within :: "nat \<Rightarrow> node \<Rightarrow> string option" where
  "extractText_within 0 n = None"
| "extractText_within (Suc k) NNull = Some []"
| "extractText_within (Suc k) NUndefined = Some []"
| "extractText_within (Suc k) (NString s) = Some s"
| "extractText_within (Suc k) (NNumber n) = Some (Number_toString n)"
| "extractText_within (Suc k) (NArray nodes) =
     map_option concat (those (map (extractText_within k) nodes))"
| "extractText_within (Suc k) (NElement tag children) = extractText_within k children"
| "extractText_within (Suc k) (NBoolean b) = Some []"
| "extractText_within (Suc k) NOther = Some []"

section \<open>The specification's wording, and example inputs\<close>

text \<open>
  Date normalization as the specification words it: the zero epoch for an absent value
  (\<^verbatim>\<open>undefined\<close> or \<^verbatim>\<open>null\<close>), the ISO form for a Date object, and for every other
  value the string coercion followed by the parse. It is compared with
  \<open>normalizeDateToISO\<close> below.
\<close>

definition normalizeDateToISO_spec :: "('raw, 'tree) env \<Rightarrow> jsval \<Rightarrow> error + string" where
  "normalizeDateToISO_spec E v =
     (if nullish v then Inr ''1970-01-01T00:00:00.000Z''
      else case v of
        JDate tv \<Rightarrow> Date_toISOString tv
      | _ \<Rightarrow>
          bindE (JS_String E v) (\<lambda>s.
            case Date_parse E s of Some t \<Rightarrow> Inr (toISOString t) | None \<Rightarrow> Inr s))"

text \<open>
  The order of the specification, \<^verbatim>\<open>a.createdAt >= b.createdAt\<close> as timestamps: both
  strings are read as dates and the time values compared; a comparison with NaN is false.
\<close>

definition createdAt_ge :: "('raw, 'tree) env \<Rightarrow> PostListItem \<Rightarrow> PostListItem \<Rightarrow> bool" where
  "createdAt_ge E a b =
     (case (Date_parse E (createdAt (frontMatter a)), Date_parse E (createdAt (frontMatter b))) of
        (Some x, Some y) \<Rightarrow> y \<le> x
      | _ \<Rightarrow> False)"

text \<open>A post is dated when its \<^verbatim>\<open>createdAt\<close> parses as a date.\<close>

definition dated :: "('raw, 'tree) env \<Rightarrow> PostListItem \<Rightarrow> bool" where
  "dated E p = (Date_parse E (createdAt (frontMatter p)) \<noteq> None)"

text \<open>
  A content directory with three posts, a file that is not a post and a subdirectory. The
  dates are a YAML timestamp (a Date object), a date-only string and a full ISO string.
\<close>

definition example_dir :: "(metadata \<times> string) content_dir" where
  "example_dir = Some
     [(''old.mdx'', File ([(''title'', JStr ''Old''), (''date'', JDate (Some 1577836800000))],
                          ''first post'')),
      (''notes.txt'', File ([], ''not a post'')),
      (''drafts.mdx'', Directory),
      (''new.mdx'', File ([(''title'', JStr ''New''), (''date'', JStr ''2024-03-01''),
                           (''category'', JStr ''Frontend''),
                           (''tags'', JArr [JStr ''a'', JNum (Finite 2)])], ''second post'')),
      (''mid.mdx'', File ([(''createdAt'', JStr ''2022-05-05T10:00:00.000Z''),
                           (''category'', JStr '' infra '')], ''third post''))]"

text \<open>Two posts, one of them dated \<^verbatim>\<open>soon\<close>, which no engine reads as a date.\<close>

definition undated_dir :: "(metadata \<times> string) content_dir" where
  "undated_dir = Some
     [(''a.mdx'', File ([(''date'', JStr ''2024-03-01'')], ''a'')),
      (''b.mdx'', File ([(''date'', JStr ''soon'')], ''b''))]"

text \<open>
  A disk whose content directory is \<open>example_dir\<close>, with a file \<^verbatim>\<open>outside.mdx\<close> beside
  the content directory, in \<^verbatim>\<open>src\<close>.
\<close>

definition example_fs :: "(metadata \<times> string) filesystem" where
  "example_fs =
     \<lparr> root = Folder
         [(''app'', Folder
            [(''src'', Folder
               [(''outside.mdx'', RegularFile ([(''title'', JStr ''Outside'')], ''not a post'')),
                (''content'', Folder
                   [(''old.mdx'', RegularFile ([(''title'', JStr ''Old''),
                                                (''date'', JDate (Some 1577836800000))],
                                               ''first post'')),
                    (''notes.txt'', RegularFile ([], ''not a post'')),
                    (''drafts.mdx'', Folder []),
                    (''new.mdx'', RegularFile ([(''title'', JStr ''New''),
                                                (''date'', JStr ''2024-03-01''),
                                                (''category'', JStr ''Frontend''),
                                                (''tags'', JArr [JStr ''a'', JNum (Finite 2)])],
                                               ''second post'')),
                    (''mid.mdx'', RegularFile ([(''createdAt'', JStr ''2022-05-05T10:00:00.000Z''),
                                                (''category'', JStr '' infra '')],
                                               ''third post''))])])])],
       cwd = [''app''] \<rparr>"

definition outside_frontMatter :: PostFrontMatter where
  "outside_frontMatter =
     \<lparr> title = ''Outside'', createdAt = ''1970-01-01T00:00:00.000Z'',
       updatedAt = ''1970-01-01T00:00:00.000Z'', category = ''etc'',
       description = None, tags = None \<rparr>"

text \<open>
  The children of a code block: a string, an element around an array with the numbers
  12, 1.5 and 1e21, a boolean and a string, then \<^verbatim>\<open>null\<close>.
\<close>

definition example_node :: node where
  "example_node =
     NArray [NString ''x = '',
             NElement ''span''
               (NArray [NNumber (Finite 12), NString '' '', NNumber (Decimal False 15 1),
                        NString '' '', NNumber (Decimal False 1 22), NBoolean True,
                        NString '';'']),
             NNull]"

text \<open>The three posts of \<open>example_dir\<close> and the two of \<open>undated_dir\<close>, normalized.\<close>

definition example_old :: PostListItem where
  "example_old =
     \<lparr> slug = ''old'',
       frontMatter = \<lparr> title = ''Old'', createdAt = ''2020-01-01T00:00:00.000Z'',
                       updatedAt = ''2020-01-01T00:00:00.000Z'', category = ''etc'',
                       description = None, tags = None \<rparr> \<rparr>"

definition example_new :: PostListItem where
  "example_new =
     \<lparr> slug = ''new'',
       frontMatter = \<lparr> title = ''New'', createdAt = ''2024-03-01T00:00:00.000Z'',
                       updatedAt = ''2024-03-01T00:00:00.000Z'', category = ''frontend'',
                       description = None, tags = Some [''a'', ''2''] \<rparr> \<rparr>"

definition example_mid :: PostListItem where
  "example_mid =
     \<lparr> slug = ''mid'',
       frontMatter = \<lparr> title = ''Untitled'', createdAt = ''2022-05-05T10:00:00.000Z'',
                       updatedAt = ''2022-05-05T10:00:00.000Z'', category = ''infra'',
                       description = None, tags = None \<rparr> \<rparr>"

definition undated_a :: PostListItem where
  "undated_a =
     \<lparr> slug = ''a'',
       frontMatter = \<lparr> title = ''Untitled'', createdAt = ''2024-03-01T00:00:00.000Z'',
                       updatedAt = ''2024-03-01T00:00:00.000Z'', category = ''etc'',
                       description = None, tags = None \<rparr> \<rparr>"

definition undated_b :: PostListItem where
  "undated_b =
     \<lparr> slug = ''b'',
       frontMatter = \<lparr> title = ''Untitled'', createdAt = ''soon'', updatedAt = ''soon'',
                       category = ''etc'', description = None, tags = None \<rparr> \<rparr>"

section \<open>Basic facts\<close>

lemma bindE_Inr [simp]: "bindE (Inr x) f = f x"
  by (simp add: bindE_def)

lemma bindE_Inl [simp]: "bindE (Inl e) f = Inl e"
  by (simp add: bindE_def)

lemma bindE_eq_Inr: "bindE m f = Inr y \<longleftrightarrow> (\<exists>x. m = Inr x \<and> f x = Inr y)"
  by (cases m) simp_all

text \<open>Evaluation of the date and string functions on literals, by rewriting.\<close>

lemma pad_2: "pad 2 n = [digit_char (n div 10), digit_char n]"
  by (simp add: numeral_2_eq_2)

lemma pad_3: "pad 3 n = [digit_char (n div 10 div 10), digit_char (n div 10), digit_char n]"
  by (simp add: numeral_3_eq_3)

lemma pad_4: "pad 4 n = digit_char (n div 10 div 10 div 10) # pad 3 n"
  using pad.simps(2) [of 3 n] by (simp add: pad_3)

lemmas date_defs =
  toISOString_def date_string_def time_string_def civil_from_days_def civil_of_shifted_def
  day_of_era_def year_of_era_def day_of_year_def month_index_def day_of_month_def
  month_of_year_def msPerDay_def year_string_def digit_char_def pad_2 pad_3 pad_4

lemmas parse_defs =
  Date_parse_iso_def parse_ymd_def parse_hms_def digits_def digit_val_def days_from_civil_def
  days_of_shifted_def shifted_year_def shifted_day_of_year_def msPerDay_def

lemmas string_defs = trim_ascii_def toLowerCase_ascii_def lower_char_def is_space_def

lemma replicate_numeral: "replicate (numeral k) x = x # replicate (pred_numeral k) x"
  by (simp add: numeral_eq_Suc)

lemmas number_defs =
  Finite_def place_point_def exponent_part_def digit_char_def replicate_numeral

lemma toISOString_0: "toISOString 0 = ''1970-01-01T00:00:00.000Z''"
  by (simp add: date_defs)

section \<open>Category normalization\<close>

text \<open>
  What \<open>normalizeCategory\<close> answers on values of several types: a string in any ASCII
  casing and white space, an array (which prints as its elements), a number, a boolean, a
  plain object, and the absent value.
\<close>

lemma normalizeCategory_examples:
  "normalizeCategory env0 (JStr ''  FrontEnd '') = Inr ''frontend''"
  "normalizeCategory env0 (JStr ''Front End'') = Inr ''etc''"
  "normalizeCategory env0 (JArr [JStr ''Backend'']) = Inr ''backend''"
  "normalizeCategory env0 (JArr [JStr ''infra'', JNull]) = Inr ''etc''"
  "normalizeCategory env0 (JNum (Finite 5)) = Inr ''etc''"
  "normalizeCategory env0 (JBool True) = Inr ''etc''"
  "normalizeCategory env0 (JObj [(''name'', JStr ''infra'')]) = Inr ''etc''"
  "normalizeCategory env0 JUndefined = Inr ''etc''"
  by (simp_all add: normalizeCategory_def env0_def string_defs number_defs nullish_def
      ALL_CATEGORIES_def)

text \<open>
  C4. \<open>normalizeCategory\<close> does not answer a member of the enumeration for every raw
  value. For the category \<^verbatim>\<open>{toString: 1}\<close>, and for an array that holds such an object,
  the string coercion of line 197 throws a TypeError before the value is lowercased,
  trimmed and tested, in every environment; the claim has \<^verbatim>\<open>etc\<close> there, which is what
  the code answers for a plain object without that property.
\<close>

theorem normalizeCategory_throws:
  "normalizeCategory E (JObj [(''toString'', JNum (Finite 1))]) = Inl TypeError
   \<and> normalizeCategory E (JArr [JStr ''frontend'', JObj [(''toString'', JNum (Finite 1))]])
       = Inl TypeError
   \<and> normalizeCategory env0 (JObj [(''name'', JStr ''frontend'')]) = Inr ''etc''"
  by (simp add: normalizeCategory_def env0_def string_defs nullish_def ALL_CATEGORIES_def)

section \<open>Plain-text projection of a render tree\<close>

lemma those_map_Some: "those (map (\<lambda>x. Some (f x)) xs) = Some (map f xs)"
  by (induction xs) simp_all

lemma those_map_eq_Some:
  assumes "those (map g xs) = Some ys"
    and "\<And>x y. x \<in> set xs \<Longrightarrow> g x = Some y \<Longrightarrow> y = f x"
  shows "ys = map f xs"
  using assms
proof (induction xs arbitrary: ys)
  case Nil
  then show ?case by simp
next
  case (Cons x xs)
  from Cons.prems(1) obtain y zs where
    y: "g x = Some y" and zs: "those (map g xs) = Some zs" and ys: "ys = y # zs"
    by (auto split: option.splits)
  from Cons.IH [OF zs] Cons.prems(2) have "zs = map f xs" by simp
  moreover from Cons.prems(2) y have "y = f x" by simp
  ultimately show ?case using ys by simp
qed

lemma depth_element_le: "x \<in> set nodes \<Longrightarrow> depth x \<le> foldr max (map depth nodes) 0"
  by (induction nodes) auto

lemma depth_positive: "0 < depth n"
  by (cases n) simp_all

text \<open>Within a bound of at least the depth of the node, the bounded run returns the text.\<close>

lemma extractText_within_complete:
  "depth n \<le> k \<Longrightarrow> extractText_within k n = Some (extractText n)"
proof (induction n arbitrary: k)
  case (NArray nodes)
  then obtain j where k: "k = Suc j" and j: "foldr max (map depth nodes) 0 \<le> j"
    by (cases k) auto
  have "extractText_within j x = Some (extractText x)" if "x \<in> set nodes" for x
    using that NArray.IH [of x j] depth_element_le [of x nodes] j by simp
  then have m: "map (extractText_within j) nodes = map (\<lambda>x. Some (extractText x)) nodes"
    by simp
  show ?case
    unfolding k extractText_within.simps m those_map_Some by simp
next
  case (NElement tag children)
  then obtain j where "k = Suc j" and "depth children \<le> j"
    by (cases k) auto
  with NElement.IH [of j] show ?case by simp
qed (case_tac [!] k, simp_all)

text \<open>Whatever a bounded run returns is the text, whatever the bound.\<close>

lemma extractText_within_sound:
  "extractText_within k n = Some t \<Longrightarrow> t = extractText n"
proof (induction k n arbitrary: t rule: extractText_within.induct)
  case (6 k nodes)
  from "6.prems" obtain ys where
    ys: "those (map (extractText_within k) nodes) = Some ys" and t: "t = concat ys"
    by auto
  from ys have "ys = map extractText nodes"
    by (rule those_map_eq_Some) (use "6.IH" in blast)
  with t show ?case by simp
qed simp_all

text \<open>
  C9. \<open>extractText\<close> gives the empty string for a null or undefined node, a string
  itself, a number's string form, for an array the concatenation of the texts of its
  elements in order, for an element the text of its children, and the empty string for
  any other node. It terminates on every node: run with its calls nested no deeper than
  the depth of the node, it returns that text. It is deterministic: whatever a run
  returns, under whatever bound, is that text, which depends on the node alone.
\<close>

theorem extractText_cases:
  "extractText NNull = [] \<and> extractText NUndefined = []
   \<and> extractText (NString s) = s \<and> extractText (NNumber n) = Number_toString n
   \<and> extractText (NArray nodes) = concat (map extractText nodes)
   \<and> extractText (NElement tag children) = extractText children
   \<and> extractText (NBoolean b) = [] \<and> extractText NOther = []
   \<and> extractText_within (depth node) node = Some (extractText node)
   \<and> (\<forall>k. depth node \<le> k \<longrightarrow> extractText_within k node = Some (extractText node))
   \<and> (\<forall>k t. extractText_within k node = Some t \<longrightarrow> t = extractText node)"
  using extractText_within_complete extractText_within_sound by simp

theorem extractText_cases_witness:
  "depth example_node = 4
   \<and> extractText_within 4 example_node = Some ''x = 12 1.5 1e+21;''
   \<and> extractText_within 3 example_node = None
   \<and> extractText example_node = ''x = 12 1.5 1e+21;''
   \<and> extractText (NNumber (Decimal True 5 0)) = ''-0.5''
   \<and> extractText (NNumber (Decimal False 1 (- 6))) = ''1e-7''
   \<and> extractText (NNumber (Finite 1200)) = ''1200''
   \<and> extractText (NNumber NaN) = ''NaN''"
proof -
  have d: "depth example_node = 4"
    by (simp add: example_node_def)
  have t: "extractText example_node = ''x = 12 1.5 1e+21;''"
    by (simp add: example_node_def number_defs)
  have short: "extractText_within 3 example_node = None"
    by (simp add: example_node_def numeral_3_eq_3)
  have nums: "extractText (NNumber (Decimal True 5 0)) = ''-0.5''"
    "extractText (NNumber (Decimal False 1 (- 6))) = ''1e-7''"
    "extractText (NNumber (Finite 1200)) = ''1200''"
    "extractText (NNumber NaN) = ''NaN''"
    by (simp_all add: number_defs)
  from extractText_cases [where node = example_node]
  have "extractText_within (depth example_node) example_node = Some (extractText example_node)"
    by blast
  with d t have "extractText_within 4 example_node = Some ''x = 12 1.5 1e+21;''"
    by simp
  with d t short nums show ?thesis by simp
qed

section \<open>Date normalization\<close>

lemma normalizeDateToISO_falsy:
  "falsy v \<Longrightarrow> normalizeDateToISO E v = Inr ''1970-01-01T00:00:00.000Z''"
  by (simp add: normalizeDateToISO_def toISOString_0)

lemma normalizeDateToISO_Date:
  "normalizeDateToISO E (JDate tv) = Date_toISOString tv"
  by (simp add: normalizeDateToISO_def)

lemma normalizeDateToISO_other:
  assumes "\<not> falsy v" and "\<forall>tv. v \<noteq> JDate tv"
  shows "normalizeDateToISO E v =
           bindE (JS_String E v) (\<lambda>s.
             Inr (case Date_parse E s of Some t \<Rightarrow> toISOString t | None \<Rightarrow> s))"
proof -
  have "(\<lambda>asString. case Date_parse E asString of
                        Some t \<Rightarrow> Inr (toISOString t) | None \<Rightarrow> Inr asString) =
        (\<lambda>s. Inr (case Date_parse E s of Some t \<Rightarrow> toISOString t | None \<Rightarrow> s)
           :: error + string)"
    by (rule ext) (simp split: option.splits)
  with assms show ?thesis
    by (cases v) (simp_all add: normalizeDateToISO_def)
qed

text \<open>What a successful normalization says about each field of the record.\<close>

lemma listPosts_normalized_Inr:
  "listPosts_normalized E fm = Inr r \<Longrightarrow>
     JS_String E (coalesce (getprop fm ''title'') (JStr ''Untitled'')) = Inr (title r)
     \<and> normalizeDateToISO E (coalesce (getprop fm ''createdAt'') (getprop fm ''date''))
         = Inr (createdAt r)
     \<and> normalizeCategory E (getprop fm ''category'') = Inr (category r)"
  by (auto simp: listPosts_normalized_def bindE_eq_Inr)

lemma getPostBySlug_normalized_Inr:
  "getPostBySlug_normalized E sl fm = Inr r \<Longrightarrow>
     JS_String E (coalesce (getprop fm ''title'') (JStr sl)) = Inr (title r)
     \<and> normalizeDateToISO E (coalesce (getprop fm ''createdAt'') (getprop fm ''date''))
         = Inr (createdAt r)
     \<and> normalizeCategory E (getprop fm ''category'') = Inr (category r)"
  by (auto simp: getPostBySlug_normalized_def bindE_eq_Inr)

lemmas normalize_defs =
  listPosts_normalized_def getPostBySlug_normalized_def normalizeDateToISO_def
  normalizeCategory_def getprop_def coalesce_def nullish_def env0_def Date_toISOString_def
  ALL_CATEGORIES_def

text \<open>
  C1 (as the code has it). For every raw date value: a falsy value (absent, that is
  \<^verbatim>\<open>undefined\<close> or \<^verbatim>\<open>null\<close>, but also \<^verbatim>\<open>false\<close>, \<^verbatim>\<open>0\<close>, \<^verbatim>\<open>NaN\<close> and the empty
  string) gives the zero-epoch timestamp; a valid Date object gives its ISO form; every
  other value is coerced to a string and parsed, giving the ISO form of the parsed time,
  or the string itself when the parse fails. A document with neither \<^verbatim>\<open>createdAt\<close> nor
  \<^verbatim>\<open>date\<close> gets \<^verbatim>\<open>1970-01-01T00:00:00.000Z\<close> as \<^verbatim>\<open>createdAt\<close>, in both normalizers.
\<close>

theorem normalizeDateToISO_cases:
  "(falsy v \<longrightarrow> normalizeDateToISO E v = Inr ''1970-01-01T00:00:00.000Z'')
   \<and> normalizeDateToISO E (JDate (Some t)) = Inr (toISOString t)
   \<and> (\<not> falsy v \<and> (\<forall>tv. v \<noteq> JDate tv) \<longrightarrow>
        normalizeDateToISO E v =
          bindE (JS_String E v) (\<lambda>s.
            Inr (case Date_parse E s of Some t \<Rightarrow> toISOString t | None \<Rightarrow> s)))
   \<and> (nullish (coalesce (getprop fm ''createdAt'') (getprop fm ''date'')) \<longrightarrow>
        (\<forall>r. listPosts_normalized E fm = Inr r \<longrightarrow> createdAt r = ''1970-01-01T00:00:00.000Z'')
        \<and> (\<forall>r. getPostBySlug_normalized E sl fm = Inr r \<longrightarrow>
               createdAt r = ''1970-01-01T00:00:00.000Z''))"
proof (intro conjI impI allI)
  assume "falsy v"
  then show "normalizeDateToISO E v = Inr ''1970-01-01T00:00:00.000Z''"
    by (rule normalizeDateToISO_falsy)
next
  show "normalizeDateToISO E (JDate (Some t)) = Inr (toISOString t)"
    by (simp add: normalizeDateToISO_Date Date_toISOString_def)
next
  assume "\<not> falsy v \<and> (\<forall>tv. v \<noteq> JDate tv)"
  then show "normalizeDateToISO E v =
          bindE (JS_String E v) (\<lambda>s.
            Inr (case Date_parse E s of Some t \<Rightarrow> toISOString t | None \<Rightarrow> s))"
    using normalizeDateToISO_other by blast
next
  fix r
  assume n: "nullish (coalesce (getprop fm ''createdAt'') (getprop fm ''date''))"
    and ok: "listPosts_normalized E fm = Inr r"
  from n have "falsy (coalesce (getprop fm ''createdAt'') (getprop fm ''date''))"
    by (auto simp: nullish_def)
  with listPosts_normalized_Inr [OF ok] show "createdAt r = ''1970-01-01T00:00:00.000Z''"
    by (simp add: normalizeDateToISO_falsy)
next
  fix r
  assume n: "nullish (coalesce (getprop fm ''createdAt'') (getprop fm ''date''))"
    and ok: "getPostBySlug_normalized E sl fm = Inr r"
  from n have "falsy (coalesce (getprop fm ''createdAt'') (getprop fm ''date''))"
    by (auto simp: nullish_def)
  with getPostBySlug_normalized_Inr [OF ok] show "createdAt r = ''1970-01-01T00:00:00.000Z''"
    by (simp add: normalizeDateToISO_falsy)
qed

theorem normalizeDateToISO_cases_witness:
  "falsy (JNum (Finite 0))
   \<and> normalizeDateToISO env0 (JNum (Finite 0)) = Inr ''1970-01-01T00:00:00.000Z''
   \<and> normalizeDateToISO env0 (JDate (Some 1709251200000)) = Inr ''2024-03-01T00:00:00.000Z''
   \<and> \<not> falsy (JStr ''2024-03-01'')
   \<and> normalizeDateToISO env0 (JStr ''2024-03-01'') = Inr ''2024-03-01T00:00:00.000Z''
   \<and> nullish (coalesce (getprop [(''title'', JStr ''b'')] ''createdAt'')
                (getprop [(''title'', JStr ''b'')] ''date''))
   \<and> listPosts_normalized env0 [(''title'', JStr ''b'')] =
       Inr \<lparr> title = ''b'', createdAt = ''1970-01-01T00:00:00.000Z'',
             updatedAt = ''1970-01-01T00:00:00.000Z'', category = ''etc'',
             description = None, tags = None \<rparr>"
proof -
  have iso: "toISOString 1709251200000 = ''2024-03-01T00:00:00.000Z''"
    by (simp add: date_defs)
  have parse: "Date_parse env0 ''2024-03-01'' = Some 1709251200000"
    by (simp add: env0_def parse_defs)
  have run: "listPosts_normalized env0 [(''title'', JStr ''b'')] =
       Inr \<lparr> title = ''b'', createdAt = ''1970-01-01T00:00:00.000Z'',
             updatedAt = ''1970-01-01T00:00:00.000Z'', category = ''etc'',
             description = None, tags = None \<rparr>"
    by (simp add: normalize_defs toISOString_0)
  have absent: "nullish (coalesce (getprop [(''title'', JStr ''b'')] ''createdAt'')
                (getprop [(''title'', JStr ''b'')] ''date''))"
    by (simp add: normalize_defs)
  have zero: "falsy (JNum (Finite 0))"
    by (simp add: Finite_def)
  from normalizeDateToISO_cases [of "JNum (Finite 0)" env0 1709251200000] zero
  have a: "normalizeDateToISO env0 (JNum (Finite 0)) = Inr ''1970-01-01T00:00:00.000Z''"
    by blast
  from normalizeDateToISO_cases [of "JNum (Finite 0)" env0 1709251200000]
  have b: "normalizeDateToISO env0 (JDate (Some 1709251200000)) = Inr ''2024-03-01T00:00:00.000Z''"
    by (simp add: iso)
  from normalizeDateToISO_cases [of "JStr ''2024-03-01''" env0]
  have c: "normalizeDateToISO env0 (JStr ''2024-03-01'') = Inr ''2024-03-01T00:00:00.000Z''"
    by (simp add: parse iso)
  from zero a b c run absent show ?thesis by simp
qed

text \<open>
  The specification's wording sends every value that is neither absent nor a Date through
  the string coercion and the parse. For \<^verbatim>\<open>date: false\<close> that reading gives the string
  \<^verbatim>\<open>false\<close>; the code's test \<^verbatim>\<open>!value\<close> answers the zero epoch.
\<close>

theorem normalizeDateToISO_spec_counterexample:
  "normalizeDateToISO env0 (JBool False) = Inr ''1970-01-01T00:00:00.000Z''
   \<and> normalizeDateToISO_spec env0 (JBool False) = Inr ''false''"
  by (simp add: normalizeDateToISO_falsy normalizeDateToISO_spec_def nullish_def env0_def
      Date_parse_iso_def)

text \<open>
  C2 (as the code has it). In both normalizers, a raw \<^verbatim>\<open>createdAt ?? date\<close> that is
  missing or otherwise falsy gives the zero-epoch timestamp; a raw value that is present,
  not a Date, and whose string does not parse as a date gives that string itself as
  \<^verbatim>\<open>createdAt\<close>, not the zero epoch.
\<close>

theorem createdAt_fallback:
  assumes "listPosts_normalized E fm = Inr r \<or> getPostBySlug_normalized E sl fm = Inr r"
  shows "(falsy (coalesce (getprop fm ''createdAt'') (getprop fm ''date'')) \<longrightarrow>
            createdAt r = ''1970-01-01T00:00:00.000Z'')
         \<and> (\<forall>s. \<not> falsy (coalesce (getprop fm ''createdAt'') (getprop fm ''date''))
                \<and> (\<forall>tv. coalesce (getprop fm ''createdAt'') (getprop fm ''date'') \<noteq> JDate tv)
                \<and> JS_String E (coalesce (getprop fm ''createdAt'') (getprop fm ''date'')) = Inr s
                \<and> Date_parse E s = None \<longrightarrow> createdAt r = s)"
proof -
  from assms have c: "normalizeDateToISO E (coalesce (getprop fm ''createdAt'') (getprop fm ''date''))
      = Inr (createdAt r)"
    using listPosts_normalized_Inr getPostBySlug_normalized_Inr by blast
  show ?thesis
  proof (intro conjI impI allI)
    assume "falsy (coalesce (getprop fm ''createdAt'') (getprop fm ''date''))"
    with c show "createdAt r = ''1970-01-01T00:00:00.000Z''"
      by (simp add: normalizeDateToISO_falsy)
  next
    fix s
    assume h: "\<not> falsy (coalesce (getprop fm ''createdAt'') (getprop fm ''date''))
                \<and> (\<forall>tv. coalesce (getprop fm ''createdAt'') (getprop fm ''date'') \<noteq> JDate tv)
                \<and> JS_String E (coalesce (getprop fm ''createdAt'') (getprop fm ''date'')) = Inr s
                \<and> Date_parse E s = None"
    then have "normalizeDateToISO E (coalesce (getprop fm ''createdAt'') (getprop fm ''date''))
        = Inr s"
      by (simp add: normalizeDateToISO_other)
    with c show "createdAt r = s" by simp
  qed
qed

theorem createdAt_fallback_witness:
  "listPosts_normalized env0 [(''date'', JStr ''soon'')] =
       Inr \<lparr> title = ''Untitled'', createdAt = ''soon'', updatedAt = ''soon'',
             category = ''etc'', description = None, tags = None \<rparr>
   \<and> \<not> falsy (coalesce (getprop [(''date'', JStr ''soon'')] ''createdAt'')
                 (getprop [(''date'', JStr ''soon'')] ''date''))
   \<and> Date_parse env0 ''soon'' = None
   \<and> createdAt \<lparr> title = ''Untitled'', createdAt = ''soon'', updatedAt = ''soon'',
             category = ''etc'', description = None, tags = None \<rparr> = ''soon''"
proof -
  let ?r = "\<lparr> title = ''Untitled'', createdAt = ''soon'', updatedAt = ''soon'',
             category = ''etc'', description = None, tags = None \<rparr>"
  have parse: "Date_parse env0 ''soon'' = None"
    by (simp add: env0_def Date_parse_iso_def)
  have run: "listPosts_normalized env0 [(''date'', JStr ''soon'')] = Inr ?r"
    by (simp add: listPosts_normalized_def normalizeDateToISO_def normalizeCategory_def
        getprop_def coalesce_def nullish_def parse)
  have raw: "coalesce (getprop [(''date'', JStr ''soon'')] ''createdAt'')
                 (getprop [(''date'', JStr ''soon'')] ''date'') = JStr ''soon''"
    by (simp add: getprop_def coalesce_def nullish_def)
  from createdAt_fallback [of env0 "[(''date'', JStr ''soon'')]" ?r "[]"] run
  have "createdAt ?r = ''soon''"
    by (simp add: raw parse)
  with run raw parse show ?thesis by simp
qed

theorem createdAt_unparseable_counterexample:
  "listPosts_normalized env0 [(''date'', JStr ''soon'')] =
       Inr \<lparr> title = ''Untitled'', createdAt = ''soon'', updatedAt = ''soon'',
             category = ''etc'', description = None, tags = None \<rparr>
   \<and> Date_parse env0 ''soon'' = None
   \<and> ''soon'' \<noteq> ''1970-01-01T00:00:00.000Z''"
proof -
  have parse: "Date_parse env0 ''soon'' = None"
    by (simp add: env0_def Date_parse_iso_def)
  then show ?thesis
    by (simp add: listPosts_normalized_def normalizeDateToISO_def normalizeCategory_def
        getprop_def coalesce_def nullish_def)
qed

section \<open>Coercions that throw\<close>

text \<open>
  C3. The field coercions are not total. A category (or any other field) that is a plain
  object with an own property \<^verbatim>\<open>toString\<close>, as the YAML block
  \<^verbatim>\<open>category: {toString: 1}\<close> gives, makes \<^verbatim>\<open>String(value)\<close> throw a TypeError,
  and with it \<open>normalizeCategory\<close> and the whole normalization of the document; a Date
  object whose time value is NaN makes \<^verbatim>\<open>toISOString\<close> throw a RangeError in
  \<open>normalizeDateToISO\<close>, whose string branch does test for NaN first.
\<close>

theorem coercion_throws:
  "normalizeCategory E (JObj [(''toString'', JNum (Finite 1))]) = Inl TypeError
   \<and> listPosts_normalized E [(''category'', JObj [(''toString'', JNum (Finite 1))])]
       = Inl TypeError
   \<and> getPostBySlug_normalized E sl [(''category'', JObj [(''toString'', JNum (Finite 1))])]
       = Inl TypeError
   \<and> normalizeDateToISO E (JDate None) = Inl RangeError"
  by (simp add: listPosts_normalized_def getPostBySlug_normalized_def normalizeDateToISO_def
      normalizeCategory_def getprop_def coalesce_def nullish_def Date_toISOString_def)

section \<open>The title\<close>

text \<open>
  C6 (as the code has it). When the raw title is missing (\<^verbatim>\<open>undefined\<close> or \<^verbatim>\<open>null\<close>)
  the normalized title is the literal \<^verbatim>\<open>Untitled\<close> in \<^verbatim>\<open>listPosts\<close>, hence not empty,
  and the slug in \<^verbatim>\<open>getPostBySlug\<close>. When the raw title is present the normalized title
  is its string coercion, whatever that is: \<^verbatim>\<open>??\<close> does not replace an empty string.
\<close>

theorem title_fallback:
  "(nullish (getprop fm ''title'') \<longrightarrow>
      (\<forall>r. listPosts_normalized E fm = Inr r \<longrightarrow> title r = ''Untitled'' \<and> title r \<noteq> [])
      \<and> (\<forall>r. getPostBySlug_normalized E sl fm = Inr r \<longrightarrow> title r = sl))
   \<and> (\<not> nullish (getprop fm ''title'') \<longrightarrow>
      (\<forall>r. listPosts_normalized E fm = Inr r \<or> getPostBySlug_normalized E sl fm = Inr r \<longrightarrow>
         JS_String E (getprop fm ''title'') = Inr (title r)))"
proof -
  have l: "title r = ''Untitled'' \<and> title r \<noteq> []"
    if "nullish (getprop fm ''title'')" and "listPosts_normalized E fm = Inr r" for r
    using that listPosts_normalized_Inr [of E fm r] by (auto simp: coalesce_def)
  have g: "title r = sl"
    if "nullish (getprop fm ''title'')" and "getPostBySlug_normalized E sl fm = Inr r" for r
    using that getPostBySlug_normalized_Inr [of E sl fm r] by (simp add: coalesce_def)
  have p: "JS_String E (getprop fm ''title'') = Inr (title r)"
    if "\<not> nullish (getprop fm ''title'')"
      and "listPosts_normalized E fm = Inr r \<or> getPostBySlug_normalized E sl fm = Inr r" for r
    using that listPosts_normalized_Inr [of E fm r] getPostBySlug_normalized_Inr [of E sl fm r]
    by (auto simp: coalesce_def)
  from l g p show ?thesis by blast
qed

theorem title_fallback_witness:
  "nullish (getprop [(''category'', JStr ''infra'')] ''title'')
   \<and> listPosts_normalized env0 [(''category'', JStr ''infra'')] =
       Inr \<lparr> title = ''Untitled'', createdAt = ''1970-01-01T00:00:00.000Z'',
             updatedAt = ''1970-01-01T00:00:00.000Z'', category = ''infra'',
             description = None, tags = None \<rparr>
   \<and> getPostBySlug_normalized env0 ''hello'' [(''category'', JStr ''infra'')] =
       Inr \<lparr> title = ''hello'', createdAt = ''1970-01-01T00:00:00.000Z'',
             updatedAt = ''1970-01-01T00:00:00.000Z'', category = ''infra'',
             description = None, tags = None \<rparr>
   \<and> \<not> nullish (getprop [(''title'', JNum (Finite 7))] ''title'')
   \<and> listPosts_normalized env0 [(''title'', JNum (Finite 7))] =
       Inr \<lparr> title = ''7'', createdAt = ''1970-01-01T00:00:00.000Z'',
             updatedAt = ''1970-01-01T00:00:00.000Z'', category = ''etc'',
             description = None, tags = None \<rparr>
   \<and> JS_String env0 (getprop [(''title'', JNum (Finite 7))] ''title'') = Inr ''7''"
proof -
  let ?fm = "[(''category'', JStr ''infra'')]"
  let ?a = "\<lparr> title = ''Untitled'', createdAt = ''1970-01-01T00:00:00.000Z'',
             updatedAt = ''1970-01-01T00:00:00.000Z'', category = ''infra'',
             description = None, tags = None \<rparr>"
  let ?b = "\<lparr> title = ''hello'', createdAt = ''1970-01-01T00:00:00.000Z'',
             updatedAt = ''1970-01-01T00:00:00.000Z'', category = ''infra'',
             description = None, tags = None \<rparr>"
  let ?c = "\<lparr> title = ''7'', createdAt = ''1970-01-01T00:00:00.000Z'',
             updatedAt = ''1970-01-01T00:00:00.000Z'', category = ''etc'',
             description = None, tags = None \<rparr>"
  have a: "listPosts_normalized env0 ?fm = Inr ?a"
    by (simp add: normalize_defs toISOString_0 string_defs)
  have b: "getPostBySlug_normalized env0 ''hello'' ?fm = Inr ?b"
    by (simp add: normalize_defs toISOString_0 string_defs)
  have c: "listPosts_normalized env0 [(''title'', JNum (Finite 7))] = Inr ?c"
    by (simp add: normalize_defs toISOString_0 number_defs)
  have n: "nullish (getprop ?fm ''title'')"
    and p: "\<not> nullish (getprop [(''title'', JNum (Finite 7))] ''title'')"
    by (simp_all add: getprop_def nullish_def)
  from title_fallback [of "[(''title'', JNum (Finite 7))]" env0 "[]"] p c
  have "JS_String env0 (getprop [(''title'', JNum (Finite 7))] ''title'') = Inr (title ?c)"
    by blast
  with a b c n p show ?thesis by simp
qed

text \<open>An empty raw title is present, so it stays: the normalized title is the empty string.\<close>

theorem title_empty_counterexample:
  "listPosts_normalized env0 [(''title'', JStr [])] =
       Inr \<lparr> title = [], createdAt = ''1970-01-01T00:00:00.000Z'',
             updatedAt = ''1970-01-01T00:00:00.000Z'', category = ''etc'',
             description = None, tags = None \<rparr>
   \<and> getPostBySlug_normalized env0 ''hello'' [(''title'', JStr [])] =
       Inr \<lparr> title = [], createdAt = ''1970-01-01T00:00:00.000Z'',
             updatedAt = ''1970-01-01T00:00:00.000Z'', category = ''etc'',
             description = None, tags = None \<rparr>"
  by (simp add: normalize_defs toISOString_0)

section \<open>The two inline normalizations agree\<close>

text \<open>
  Both object literals are the same computation after the title: the record of one is
  the record of the other with the title replaced, and an exception of one is the same
  exception of the other.
\<close>

lemma normalized_tail:
  "bindE (JS_String E (JStr a)) (\<lambda>t. bindE m1 (\<lambda>c. bindE m2 (\<lambda>u. bindE m3 (\<lambda>cat.
     bindE m4 (\<lambda>d. bindE m5 (\<lambda>tg.
       Inr \<lparr> title = t, createdAt = c, updatedAt = u, category = cat,
             description = d, tags = tg \<rparr>)))))) =
   map_sum id (\<lambda>r. r\<lparr> title := a \<rparr>)
     (bindE (JS_String E (JStr b)) (\<lambda>t. bindE m1 (\<lambda>c. bindE m2 (\<lambda>u. bindE m3 (\<lambda>cat.
        bindE m4 (\<lambda>d. bindE m5 (\<lambda>tg.
          Inr \<lparr> title = t, createdAt = c, updatedAt = u, category = cat,
                description = d, tags = tg \<rparr>)))))))"
  by (cases m1; cases m2; cases m3; cases m4; cases m5) simp_all

text \<open>
  C10. For every raw metadata mapping and slug: when the raw title is present the two
  normalizations give the same result (the same record, or the same exception); when it
  is absent the result of \<^verbatim>\<open>getPostBySlug\<close> is that of \<^verbatim>\<open>listPosts\<close> with the title
  \<^verbatim>\<open>Untitled\<close> replaced by the slug. In both cases two records they return are equal in
  \<^verbatim>\<open>createdAt\<close>, \<^verbatim>\<open>updatedAt\<close>, \<^verbatim>\<open>category\<close>, \<^verbatim>\<open>description\<close> and \<^verbatim>\<open>tags\<close>.
\<close>

theorem normalizations_agree:
  "(\<not> nullish (getprop fm ''title'') \<longrightarrow>
      getPostBySlug_normalized E sl fm = listPosts_normalized E fm)
   \<and> (nullish (getprop fm ''title'') \<longrightarrow>
      getPostBySlug_normalized E sl fm =
        map_sum id (\<lambda>r. r\<lparr> title := sl \<rparr>) (listPosts_normalized E fm)
      \<and> (\<forall>a. listPosts_normalized E fm = Inr a \<longrightarrow> title a = ''Untitled''))
   \<and> (\<forall>a b. listPosts_normalized E fm = Inr a \<and> getPostBySlug_normalized E sl fm = Inr b \<longrightarrow>
         createdAt a = createdAt b \<and> updatedAt a = updatedAt b \<and> category a = category b
         \<and> description a = description b \<and> tags a = tags b)"
proof -
  have present: "getPostBySlug_normalized E sl fm = listPosts_normalized E fm"
    if "\<not> nullish (getprop fm ''title'')"
    using that by (simp add: getPostBySlug_normalized_def listPosts_normalized_def coalesce_def)
  have absent: "getPostBySlug_normalized E sl fm =
        map_sum id (\<lambda>r. r\<lparr> title := sl \<rparr>) (listPosts_normalized E fm)"
    if "nullish (getprop fm ''title'')"
    unfolding getPostBySlug_normalized_def listPosts_normalized_def coalesce_def
    using that by (simp only: if_True) (rule normalized_tail)
  have untitled: "title a = ''Untitled''"
    if "nullish (getprop fm ''title'')" and "listPosts_normalized E fm = Inr a" for a
    using that listPosts_normalized_Inr [of E fm a] by (simp add: coalesce_def)
  have fields: "createdAt a = createdAt b \<and> updatedAt a = updatedAt b \<and> category a = category b
         \<and> description a = description b \<and> tags a = tags b"
    if "listPosts_normalized E fm = Inr a" and "getPostBySlug_normalized E sl fm = Inr b" for a b
  proof (cases "nullish (getprop fm ''title'')")
    case True
    from absent [OF True] that have "b = a\<lparr> title := sl \<rparr>" by simp
    then show ?thesis by simp
  next
    case False
    from present [OF False] that have "b = a" by simp
    then show ?thesis by simp
  qed
  from present absent untitled fields show ?thesis by blast
qed

theorem normalizations_agree_witness:
  "\<not> nullish (getprop [(''title'', JStr ''T''), (''date'', JStr ''2024-03-01'')] ''title'')
   \<and> getPostBySlug_normalized env0 ''hello'' [(''title'', JStr ''T''), (''date'', JStr ''2024-03-01'')]
       = listPosts_normalized env0 [(''title'', JStr ''T''), (''date'', JStr ''2024-03-01'')]
   \<and> nullish (getprop [(''date'', JStr ''2024-03-01'')] ''title'')
   \<and> listPosts_normalized env0 [(''date'', JStr ''2024-03-01'')] =
       Inr \<lparr> title = ''Untitled'', createdAt = ''2024-03-01T00:00:00.000Z'',
             updatedAt = ''2024-03-01T00:00:00.000Z'', category = ''etc'',
             description = None, tags = None \<rparr>
   \<and> getPostBySlug_normalized env0 ''hello'' [(''date'', JStr ''2024-03-01'')] =
       Inr \<lparr> title = ''hello'', createdAt = ''2024-03-01T00:00:00.000Z'',
             updatedAt = ''2024-03-01T00:00:00.000Z'', category = ''etc'',
             description = None, tags = None \<rparr>"
proof -
  let ?fm = "[(''date'', JStr ''2024-03-01'')]"
  have iso: "toISOString 1709251200000 = ''2024-03-01T00:00:00.000Z''"
    by (simp add: date_defs)
  have parse: "Date_parse_iso ''2024-03-01'' = Some 1709251200000"
    by (simp add: parse_defs)
  have p: "\<not> nullish (getprop [(''title'', JStr ''T''), (''date'', JStr ''2024-03-01'')] ''title'')"
    and n: "nullish (getprop ?fm ''title'')"
    by (simp_all add: getprop_def nullish_def)
  have a: "listPosts_normalized env0 ?fm =
       Inr \<lparr> title = ''Untitled'', createdAt = ''2024-03-01T00:00:00.000Z'',
             updatedAt = ''2024-03-01T00:00:00.000Z'', category = ''etc'',
             description = None, tags = None \<rparr>"
    by (simp add: normalize_defs parse iso)
  from normalizations_agree [of "[(''title'', JStr ''T''), (''date'', JStr ''2024-03-01'')]" env0 "''hello''"] p
  have same: "getPostBySlug_normalized env0 ''hello'' [(''title'', JStr ''T''), (''date'', JStr ''2024-03-01'')]
       = listPosts_normalized env0 [(''title'', JStr ''T''), (''date'', JStr ''2024-03-01'')]"
    by blast
  from normalizations_agree [of ?fm env0 "''hello''"] n
  have "getPostBySlug_normalized env0 ''hello'' ?fm =
        map_sum id (\<lambda>r. r\<lparr> title := ''hello'' \<rparr>) (listPosts_normalized env0 ?fm)"
    by blast
  then have b: "getPostBySlug_normalized env0 ''hello'' ?fm =
       Inr \<lparr> title = ''hello'', createdAt = ''2024-03-01T00:00:00.000Z'',
             updatedAt = ''2024-03-01T00:00:00.000Z'', category = ''etc'',
             description = None, tags = None \<rparr>"
    by (simp add: a)
  from p n a b same show ?thesis by simp
qed

section \<open>Evaluating the examples\<close>

lemma parse_2020: "Date_parse_iso ''2020-01-01T00:00:00.000Z'' = Some 1577836800000"
  by (simp add: parse_defs)

lemma parse_2022: "Date_parse_iso ''2022-05-05T10:00:00.000Z'' = Some 1651744800000"
  by (simp add: parse_defs)

lemma parse_2024: "Date_parse_iso ''2024-03-01T00:00:00.000Z'' = Some 1709251200000"
  by (simp add: parse_defs)

lemma parse_2024_date: "Date_parse_iso ''2024-03-01'' = Some 1709251200000"
  by (simp add: parse_defs)

lemma parse_soon: "Date_parse_iso ''soon'' = None"
  by (simp add: Date_parse_iso_def)

lemma iso_2020: "toISOString 1577836800000 = ''2020-01-01T00:00:00.000Z''"
  by (simp add: date_defs)

lemma iso_2022: "toISOString 1651744800000 = ''2022-05-05T10:00:00.000Z''"
  by (simp add: date_defs)

lemma iso_2024: "toISOString 1709251200000 = ''2024-03-01T00:00:00.000Z''"
  by (simp add: date_defs)

lemmas example_evals =
  parse_2020 parse_2022 parse_2024 parse_2024_date parse_soon iso_2020 iso_2022 iso_2024
  toISOString_0

lemma normalized_old:
  "listPosts_normalized env0 [(''title'', JStr ''Old''), (''date'', JDate (Some 1577836800000))]
     = Inr (frontMatter example_old)"
  by (simp add: normalize_defs example_evals example_old_def)

lemma normalized_new:
  "listPosts_normalized env0
     [(''title'', JStr ''New''), (''date'', JStr ''2024-03-01''),
      (''category'', JStr ''Frontend''), (''tags'', JArr [JStr ''a'', JNum (Finite 2)])]
     = Inr (frontMatter example_new)"
  by (simp add: normalize_defs example_evals example_new_def string_defs number_defs)

lemma normalized_mid:
  "listPosts_normalized env0
     [(''createdAt'', JStr ''2022-05-05T10:00:00.000Z''), (''category'', JStr '' infra '')]
     = Inr (frontMatter example_mid)"
  by (simp add: normalize_defs example_evals example_mid_def string_defs)

lemma normalized_a:
  "listPosts_normalized env0 [(''date'', JStr ''2024-03-01'')] = Inr (frontMatter undated_a)"
  by (simp add: normalize_defs example_evals undated_a_def)

lemma normalized_b:
  "listPosts_normalized env0 [(''date'', JStr ''soon'')] = Inr (frontMatter undated_b)"
  by (simp add: normalize_defs example_evals undated_b_def)

lemma compare_example:
  "compare_posts env0 example_new example_old = - 1"
  "compare_posts env0 example_mid example_old = - 1"
  "compare_posts env0 example_mid example_new = 1"
  by (simp_all add: compare_posts_def env0_def example_evals example_old_def example_new_def
      example_mid_def)

lemma listPosts_example: "listPosts env0 example_dir = Inr [example_new, example_mid, example_old]"
proof -
  have files: "filter (\<lambda>e. isFile e \<and> endsWith (fst e) ''.mdx'') (the example_dir) =
      [(''old.mdx'', File ([(''title'', JStr ''Old''), (''date'', JDate (Some 1577836800000))],
                          ''first post'')),
       (''new.mdx'', File ([(''title'', JStr ''New''), (''date'', JStr ''2024-03-01''),
                           (''category'', JStr ''Frontend''),
                           (''tags'', JArr [JStr ''a'', JNum (Finite 2)])], ''second post'')),
       (''mid.mdx'', File ([(''createdAt'', JStr ''2022-05-05T10:00:00.000Z''),
                           (''category'', JStr '' infra '')], ''third post''))]"
    by (simp add: example_dir_def endsWith_def)
  have slugs: "strip_mdx ''old.mdx'' = ''old''" "strip_mdx ''new.mdx'' = ''new''"
    "strip_mdx ''mid.mdx'' = ''mid''"
    by (simp_all add: strip_mdx_def endsWith_def)
  have matter0: "matter env0 = Inr" by (simp add: env0_def)
  have posts: "read_posts env0 example_dir
      (filter (\<lambda>e. isFile e \<and> endsWith (fst e) ''.mdx'') (the example_dir))
      = Inr [example_old, example_new, example_mid]"
    unfolding files
    by (simp add: readFile_def example_dir_def matter0 normalized_old normalized_new normalized_mid
        slugs example_old_def example_new_def example_mid_def)
  have sorted: "Array_sort (compare_posts env0) [example_old, example_new, example_mid]
      = [example_new, example_mid, example_old]"
    by (simp add: Array_sort_def compare_example)
  have "listPosts env0 example_dir =
      bindE (read_posts env0 example_dir
        (filter (\<lambda>e. isFile e \<and> endsWith (fst e) ''.mdx'') (the example_dir)))
        (\<lambda>posts. Inr (Array_sort (compare_posts env0) posts))"
    by (simp add: listPosts_def readdir_def example_dir_def)
  with posts sorted show ?thesis by simp
qed

lemma listPosts_undated: "listPosts env0 undated_dir = Inr [undated_b, undated_a]"
proof -
  have slugs: "strip_mdx ''a.mdx'' = ''a''" "strip_mdx ''b.mdx'' = ''b''"
    by (simp_all add: strip_mdx_def endsWith_def)
  have matter0: "matter env0 = Inr" by (simp add: env0_def)
  have cmp: "compare_posts env0 undated_b undated_a = - 1"
    by (simp add: compare_posts_def env0_def example_evals undated_a_def undated_b_def)
  have posts: "read_posts env0 undated_dir (the undated_dir) = Inr [undated_a, undated_b]"
    by (simp add: readFile_def undated_dir_def matter0 normalized_a normalized_b
        slugs undated_a_def undated_b_def)
  have "listPosts env0 undated_dir =
      bindE (read_posts env0 undated_dir (the undated_dir))
        (\<lambda>posts. Inr (Array_sort (compare_posts env0) posts))"
    by (simp add: listPosts_def readdir_def undated_dir_def endsWith_def)
  with posts show ?thesis by (simp add: Array_sort_def cmp)
qed

section \<open>The sort\<close>

lemma set_sort_insert: "set (sort_insert cmp x ys) = insert x (set ys)"
  by (induction ys) auto

lemma length_sort_insert: "length (sort_insert cmp x ys) = Suc (length ys)"
  by (induction ys) auto

lemma set_foldl_sort_insert:
  "set (foldl (\<lambda>sorted x. sort_insert cmp x sorted) acc xs) = set acc \<union> set xs"
  by (induction xs arbitrary: acc) (auto simp: set_sort_insert)

lemma length_foldl_sort_insert:
  "length (foldl (\<lambda>sorted x. sort_insert cmp x sorted) acc xs) = length acc + length xs"
  by (induction xs arbitrary: acc) (auto simp: length_sort_insert)

lemma set_Array_sort: "set (Array_sort cmp xs) = set xs"
  by (simp add: Array_sort_def set_foldl_sort_insert)

lemma length_Array_sort: "length (Array_sort cmp xs) = length xs"
  by (simp add: Array_sort_def length_foldl_sort_insert)

text \<open>
  On dated posts the comparator is negative exactly when the first post is at least as
  recent as the second, and that order is total and transitive.
\<close>

lemma compare_posts_dated:
  "dated E a \<Longrightarrow> dated E b \<Longrightarrow> compare_posts E a b < 0 \<longleftrightarrow> createdAt_ge E a b"
  by (auto simp: dated_def compare_posts_def createdAt_ge_def)

lemma createdAt_ge_total:
  "dated E a \<Longrightarrow> dated E b \<Longrightarrow> \<not> createdAt_ge E a b \<Longrightarrow> createdAt_ge E b a"
  by (auto simp: dated_def createdAt_ge_def)

lemma createdAt_ge_trans:
  "createdAt_ge E a b \<Longrightarrow> createdAt_ge E b c \<Longrightarrow> createdAt_ge E a c"
  by (auto simp: createdAt_ge_def split: option.splits)

lemma sorted_sort_insert:
  assumes "sorted_wrt (createdAt_ge E) ys" and "dated E x" and "\<forall>y\<in>set ys. dated E y"
  shows "sorted_wrt (createdAt_ge E) (sort_insert (compare_posts E) x ys)"
  using assms
proof (induction ys)
  case Nil
  then show ?case by simp
next
  case (Cons y ys)
  show ?case
  proof (cases "compare_posts E x y < 0")
    case True
    with Cons.prems have xy: "createdAt_ge E x y"
      by (simp add: compare_posts_dated)
    have "createdAt_ge E x z" if "z \<in> set ys" for z
      using that xy Cons.prems(1) by (auto intro: createdAt_ge_trans)
    with True xy Cons.prems(1) show ?thesis by auto
  next
    case False
    with Cons.prems have yx: "createdAt_ge E y x"
      by (simp add: compare_posts_dated createdAt_ge_total)
    from Cons have "sorted_wrt (createdAt_ge E) (sort_insert (compare_posts E) x ys)"
      by simp
    with False yx Cons.prems(1) show ?thesis
      by (auto simp: set_sort_insert)
  qed
qed

lemma sorted_foldl_sort_insert:
  assumes "sorted_wrt (createdAt_ge E) acc" and "\<forall>p\<in>set acc \<union> set xs. dated E p"
  shows "sorted_wrt (createdAt_ge E)
           (foldl (\<lambda>sorted x. sort_insert (compare_posts E) x sorted) acc xs)"
  using assms
proof (induction xs arbitrary: acc)
  case Nil
  then show ?case by simp
next
  case (Cons x xs)
  from Cons.prems have "sorted_wrt (createdAt_ge E) (sort_insert (compare_posts E) x acc)"
    by (intro sorted_sort_insert) auto
  moreover from Cons.prems
  have "\<forall>p\<in>set (sort_insert (compare_posts E) x acc) \<union> set xs. dated E p"
    by (auto simp: set_sort_insert)
  ultimately show ?case
    using Cons.IH by simp
qed

lemma sorted_Array_sort:
  "\<forall>p\<in>set xs. dated E p \<Longrightarrow> sorted_wrt (createdAt_ge E) (Array_sort (compare_posts E) xs)"
  unfolding Array_sort_def by (rule sorted_foldl_sort_insert) simp_all

text \<open>What \<open>listPosts\<close> returns is the sorted list of what the loop read.\<close>

lemma listPosts_Inr:
  "listPosts E dir = Inr posts \<Longrightarrow>
     \<exists>entries read. dir = Some entries
       \<and> read_posts E dir (filter (\<lambda>e. isFile e \<and> endsWith (fst e) ''.mdx'') entries) = Inr read
       \<and> posts = Array_sort (compare_posts E) read"
  by (cases dir) (auto simp: listPosts_def readdir_def bindE_eq_Inr)

lemma read_posts_length: "read_posts E dir files = Inr posts \<Longrightarrow> length posts = length files"
  by (induction files arbitrary: posts) (auto simp: bindE_eq_Inr)

lemma read_posts_category:
  "read_posts E dir files = Inr posts \<Longrightarrow>
     \<forall>p\<in>set posts. category (frontMatter p) \<in> set ALL_CATEGORIES"
proof (induction files arbitrary: posts)
  case Nil
  then show ?case by simp
next
  case (Cons f fs)
  from Cons.prems obtain fm normalized rest where
    n: "listPosts_normalized E fm = Inr normalized"
    and r: "read_posts E dir fs = Inr rest"
    and p: "posts = \<lparr> slug = strip_mdx (fst f), frontMatter = normalized \<rparr> # rest"
    by (auto simp: bindE_eq_Inr)
  from listPosts_normalized_Inr [OF n]
  have "normalizeCategory E (getprop fm ''category'') = Inr (category normalized)" by simp
  then have "category normalized \<in> set ALL_CATEGORIES"
    by (auto simp: normalizeCategory_def Let_def bindE_eq_Inr ALL_CATEGORIES_def
        split: if_splits)
  with Cons.IH [OF r] p show ?case by simp
qed

section \<open>Ordering of the listing\<close>

text \<open>
  C5 (as the code has it). For every content set whose listed posts all have a
  \<^verbatim>\<open>createdAt\<close> that parses as a date, the list \<^verbatim>\<open>listPosts()\<close> returns is sorted by
  \<^verbatim>\<open>createdAt\<close> descending: every adjacent pair \<open>(a, b)\<close>, and in fact every pair in list
  order, has \<^verbatim>\<open>a.createdAt >= b.createdAt\<close> as timestamps.
\<close>

theorem listPosts_sorted:
  assumes "listPosts E dir = Inr posts"
    and "\<forall>p\<in>set posts. Date_parse E (createdAt (frontMatter p)) \<noteq> None"
  shows "successively (createdAt_ge E) posts \<and> sorted_wrt (createdAt_ge E) posts"
proof -
  from listPosts_Inr [OF assms(1)] obtain read where
    posts: "posts = Array_sort (compare_posts E) read" by blast
  with assms(2) have "\<forall>p\<in>set read. dated E p"
    by (simp add: set_Array_sort dated_def)
  then have "sorted_wrt (createdAt_ge E) posts"
    unfolding posts by (rule sorted_Array_sort)
  then show ?thesis
    by (simp add: successively_if_sorted_wrt)
qed

theorem listPosts_sorted_witness:
  "listPosts env0 example_dir = Inr [example_new, example_mid, example_old]
   \<and> Date_parse env0 (createdAt (frontMatter example_new)) = Some 1709251200000
   \<and> Date_parse env0 (createdAt (frontMatter example_mid)) = Some 1651744800000
   \<and> Date_parse env0 (createdAt (frontMatter example_old)) = Some 1577836800000
   \<and> successively (createdAt_ge env0) [example_new, example_mid, example_old]"
proof -
  have times: "Date_parse env0 (createdAt (frontMatter example_new)) = Some 1709251200000"
    "Date_parse env0 (createdAt (frontMatter example_mid)) = Some 1651744800000"
    "Date_parse env0 (createdAt (frontMatter example_old)) = Some 1577836800000"
    by (simp_all add: env0_def example_evals example_new_def example_mid_def example_old_def)
  then have "\<forall>p\<in>set [example_new, example_mid, example_old].
      Date_parse env0 (createdAt (frontMatter p)) \<noteq> None"
    by simp
  from listPosts_sorted [OF listPosts_example this] listPosts_example times
  show ?thesis by simp
qed

text \<open>
  A post dated \<^verbatim>\<open>soon\<close> keeps that string as \<^verbatim>\<open>createdAt\<close>; its time is NaN, the
  comparator puts it first, and it is not \<^verbatim>\<open>>=\<close> its neighbour (nor the neighbour
  \<^verbatim>\<open>>=\<close> it, so no order of the two posts would do).
\<close>

theorem listPosts_unsorted_counterexample:
  "listPosts env0 undated_dir = Inr [undated_b, undated_a]
   \<and> \<not> successively (createdAt_ge env0) [undated_b, undated_a]
   \<and> \<not> successively (createdAt_ge env0) [undated_a, undated_b]"
proof -
  have "Date_parse env0 (createdAt (frontMatter undated_b)) = None"
    by (simp add: env0_def example_evals undated_b_def)
  then have "\<not> createdAt_ge env0 undated_b undated_a" "\<not> createdAt_ge env0 undated_a undated_b"
    by (simp_all add: createdAt_ge_def split: option.splits)
  with listPosts_undated show ?thesis by simp
qed

section \<open>Category counts\<close>

lemma counts_init_apply:
  "(case counts_init c of None \<Rightarrow> 0 | Some n \<Rightarrow> n) = 0"
  by (simp add: counts_init_def ALL_CATEGORIES_def)

lemma fold_counts_add:
  "(case fold counts_add posts counts c of None \<Rightarrow> 0 | Some n \<Rightarrow> n) =
     (case counts c of None \<Rightarrow> 0 | Some n \<Rightarrow> n)
       + length (filter (\<lambda>p. category (frontMatter p) = c) posts)"
  by (induction posts arbitrary: counts) (auto simp: counts_add_def)

lemma sum_list_indicator:
  "distinct cs \<Longrightarrow> a \<in> set cs \<Longrightarrow> (\<Sum>c\<leftarrow>cs. if a = c then 1 else 0) = (1::nat)"
  by (induction cs) auto

lemma sum_list_filter_lengths:
  assumes "distinct cs" and "\<forall>p\<in>set ps. f p \<in> set cs"
  shows "(\<Sum>c\<leftarrow>cs. length (filter (\<lambda>p. f p = c) ps)) = length ps"
  using assms(2)
proof (induction ps)
  case Nil
  then show ?case by simp
next
  case (Cons p ps)
  have "(\<Sum>c\<leftarrow>cs. length (filter (\<lambda>q. f q = c) (p # ps))) =
        (\<Sum>c\<leftarrow>cs. (if f p = c then 1 else 0) + length (filter (\<lambda>q. f q = c) ps))"
    by (intro arg_cong [where f = sum_list] map_cong) auto
  also have "\<dots> = (\<Sum>c\<leftarrow>cs. if f p = c then 1 else 0)
                   + (\<Sum>c\<leftarrow>cs. length (filter (\<lambda>q. f q = c) ps))"
    by (simp add: sum_list_addf)
  also have "\<dots> = 1 + length ps"
    using Cons assms(1) by (simp add: sum_list_indicator)
  finally show ?case by simp
qed

text \<open>
  C7. Whatever \<^verbatim>\<open>listPosts()\<close> returns for a content set, \<^verbatim>\<open>listCategories()\<close> returns
  one entry for each of \<^verbatim>\<open>frontend\<close>, \<^verbatim>\<open>backend\<close>, \<^verbatim>\<open>infra\<close>, \<^verbatim>\<open>etc\<close>, in that
  order, an entry with count zero included; the count of an entry is the length of what
  \<^verbatim>\<open>listPostsByCategory\<close> returns for its category; and the counts add up to the number of
  posts, which is the number of \<^verbatim>\<open>.mdx\<close> files of the directory.
\<close>

theorem listCategories_counts:
  assumes "listPosts E dir = Inr posts"
  shows "listCategories E dir =
           Inr (map (\<lambda>c. \<lparr> count_category = c,
                            count = length (filter (\<lambda>p. category (frontMatter p) = c) posts) \<rparr>)
                  [''frontend'', ''backend'', ''infra'', ''etc''])
         \<and> (\<forall>c. listPostsByCategory E dir c =
                  Inr (filter (\<lambda>p. category (frontMatter p) = c) posts))
         \<and> (\<Sum>c\<leftarrow>[''frontend'', ''backend'', ''infra'', ''etc''].
               length (filter (\<lambda>p. category (frontMatter p) = c) posts)) = length posts
         \<and> (\<forall>entries. dir = Some entries \<longrightarrow>
               length posts = length (filter (\<lambda>e. isFile e \<and> endsWith (fst e) ''.mdx'') entries))"
proof -
  from listPosts_Inr [OF assms] obtain entries read where
    dir: "dir = Some entries"
    and read: "read_posts E dir (filter (\<lambda>e. isFile e \<and> endsWith (fst e) ''.mdx'') entries) = Inr read"
    and posts: "posts = Array_sort (compare_posts E) read"
    by blast
  have cats: "listCategories E dir =
           Inr (map (\<lambda>c. \<lparr> count_category = c,
                            count = length (filter (\<lambda>p. category (frontMatter p) = c) posts) \<rparr>)
                  [''frontend'', ''backend'', ''infra'', ''etc''])"
    using assms
    by (simp add: listCategories_def Let_def fold_counts_add counts_init_apply ALL_CATEGORIES_def)
  have by_cat: "listPostsByCategory E dir c =
                  Inr (filter (\<lambda>p. category (frontMatter p) = c) posts)" for c
    using assms by (simp add: listPostsByCategory_def)
  from read_posts_category [OF read] posts
  have "\<forall>p\<in>set posts. category (frontMatter p) \<in> set [''frontend'', ''backend'', ''infra'', ''etc'']"
    by (simp add: set_Array_sort ALL_CATEGORIES_def)
  then have total: "(\<Sum>c\<leftarrow>[''frontend'', ''backend'', ''infra'', ''etc''].
               length (filter (\<lambda>p. category (frontMatter p) = c) posts)) = length posts"
    by (intro sum_list_filter_lengths) simp_all
  have files: "length posts = length (filter (\<lambda>e. isFile e \<and> endsWith (fst e) ''.mdx'') entries)"
    using read_posts_length [OF read] posts by (simp add: length_Array_sort)
  from cats by_cat total files dir show ?thesis by simp
qed

theorem listCategories_counts_witness:
  "listPosts env0 example_dir = Inr [example_new, example_mid, example_old]
   \<and> listCategories env0 example_dir =
       Inr [\<lparr> count_category = ''frontend'', count = 1 \<rparr>,
            \<lparr> count_category = ''backend'', count = 0 \<rparr>,
            \<lparr> count_category = ''infra'', count = 1 \<rparr>,
            \<lparr> count_category = ''etc'', count = 1 \<rparr>]
   \<and> listPostsByCategory env0 example_dir ''backend'' = Inr []
   \<and> listPostsByCategory env0 example_dir ''etc'' = Inr [example_old]"
proof -
  have cat: "category (frontMatter example_new) = ''frontend''"
    "category (frontMatter example_mid) = ''infra''"
    "category (frontMatter example_old) = ''etc''"
    by (simp_all add: example_new_def example_mid_def example_old_def)
  from listCategories_counts [OF listPosts_example] listPosts_example
  show ?thesis by (simp add: cat)
qed

section \<open>Looking a post up by its slug\<close>

lemma split_slash_plain: "CHR ''/'' \<notin> set s \<Longrightarrow> split_slash s = [s]"
  by (induction s) auto

text \<open>A slug without a slash names an entry of the content directory.\<close>

lemma path_join_plain:
  assumes "CHR ''/'' \<notin> set sl"
  shows "path_join base (sl @ ''.mdx'') = base @ [sl @ ''.mdx'']"
proof -
  from assms have "CHR ''/'' \<notin> set (sl @ ''.mdx'')" by simp
  then have split: "split_slash (sl @ ''.mdx'') = [sl @ ''.mdx'']"
    by (rule split_slash_plain)
  have "length (sl @ ''.mdx'') \<noteq> length ''.''" "length (sl @ ''.mdx'') \<noteq> length ''..''"
    by simp_all
  then have "sl @ ''.mdx'' \<noteq> ''.''" "sl @ ''.mdx'' \<noteq> ''..''"
    by metis+
  then show ?thesis
    by (simp add: path_join_def split)
qed

lemma fs_lookup_append:
  "fs_lookup n (p @ q) = bindE (fs_lookup n p) (\<lambda>d. fs_lookup d q)"
proof (induction p arbitrary: n)
  case Nil
  then show ?case by simp
next
  case (Cons seg p)
  then show ?case
    by (cases n) (simp_all split: option.splits)
qed

lemma readFile_content_dir:
  assumes "content_dir_of fs = Some entries"
    and "CHR 0x00 \<notin> set (concat (cwd fs))" and "CHR 0x00 \<notin> set name"
  shows "fs_readFile fs (POSTS_DIR fs @ [name]) = readFile (Some entries) name"
proof -
  from assms(2,3) have nul: "CHR 0x00 \<notin> set (concat (POSTS_DIR fs @ [name]))"
    by (simp add: POSTS_DIR_def)
  from assms obtain es where
    look: "fs_lookup (root fs) (POSTS_DIR fs) = Inr (Folder es)"
    and entries: "entries = map (\<lambda>(name, n). (name, entry_of n)) es"
    by (auto simp: content_dir_of_def split: sum.splits fsnode.splits)
  have "map_of entries name = map_option entry_of (map_of es name)"
    unfolding entries by (simp add: map_of_map)
  with nul show ?thesis
    by (simp add: fs_readFile_def fs_lookup_append look readFile_def entry_of_def
        split: option.splits fsnode.splits)
qed

lemma readFile_no_content_dir:
  assumes "content_dir_of fs = None"
  shows "\<exists>e. fs_readFile fs (POSTS_DIR fs @ [name]) = Inl e"
proof (cases "fs_lookup (root fs) (POSTS_DIR fs)")
  case (Inl e)
  then show ?thesis by (simp add: fs_readFile_def fs_lookup_append)
next
  case (Inr n)
  with assms obtain raw where "n = RegularFile raw"
    by (cases n) (simp_all add: content_dir_of_def)
  with Inr show ?thesis by (simp add: fs_readFile_def fs_lookup_append)
qed

lemma content_dir_of_example: "content_dir_of example_fs = example_dir"
  by (simp add: content_dir_of_def POSTS_DIR_def example_fs_def example_dir_def entry_of_def)

lemma normalized_new_by_slug:
  "getPostBySlug_normalized env0 ''new''
     [(''title'', JStr ''New''), (''date'', JStr ''2024-03-01''),
      (''category'', JStr ''Frontend''), (''tags'', JArr [JStr ''a'', JNum (Finite 2)])]
     = Inr (frontMatter example_new)"
  by (simp add: normalize_defs example_evals example_new_def string_defs number_defs)

lemma normalized_outside:
  "getPostBySlug_normalized env0 ''../outside'' [(''title'', JStr ''Outside'')]
     = Inr outside_frontMatter"
  by (simp add: normalize_defs example_evals outside_frontMatter_def)

text \<open>
  C8 (as the code has it). For every slug without a slash (and without a null byte, on
  a disk whose working directory has none in its path): when the content directory
  has no entry \<^verbatim>\<open><slug>.mdx\<close>, \<open>getPostBySlug\<close> fails with the \<^verbatim>\<open>ENOENT\<close> of
  \<^verbatim>\<open>readFile\<close> (with \<^verbatim>\<open>EISDIR\<close> when the entry is a directory, and with an error when
  the content directory is not there), the error its caller turns into the not-found
  page. Whatever it returns is a complete record: the document \<^verbatim>\<open><slug>.mdx\<close> exists,
  \<^verbatim>\<open>content\<close> is its compiled body and \<^verbatim>\<open>frontMatter\<close> its normalized metadata. For an
  existing document the result is that record once gray-matter, the MDX compiler and
  the field coercions have returned, and the exception of the first of them that throws
  otherwise.
\<close>

theorem getPostBySlug_plain_slug:
  assumes "CHR ''/'' \<notin> set sl" and "CHR 0x00 \<notin> set sl"
    and "CHR 0x00 \<notin> set (concat (cwd fs))"
  shows "(\<forall>entries. content_dir_of fs = Some entries \<and> map_of entries (sl @ ''.mdx'') = None \<longrightarrow>
            getPostBySlug E fs sl = Inl ENOENT)
    \<and> (\<forall>entries. content_dir_of fs = Some entries
            \<and> map_of entries (sl @ ''.mdx'') = Some Directory \<longrightarrow>
            getPostBySlug E fs sl = Inl EISDIR)
    \<and> (content_dir_of fs = None \<longrightarrow> (\<exists>e. getPostBySlug E fs sl = Inl e))
    \<and> (\<forall>post. getPostBySlug E fs sl = Inr post \<longrightarrow>
          (\<exists>entries raw data body.
             content_dir_of fs = Some entries \<and> map_of entries (sl @ ''.mdx'') = Some (File raw)
             \<and> matter E raw = Inr (data, body)
             \<and> compileMDX E body = Inr (post_content post)
             \<and> getPostBySlug_normalized E sl data = Inr (post_frontMatter post)))
    \<and> (\<forall>entries raw data body tree normalized.
          content_dir_of fs = Some entries \<and> map_of entries (sl @ ''.mdx'') = Some (File raw)
          \<and> matter E raw = Inr (data, body) \<and> compileMDX E body = Inr tree
          \<and> getPostBySlug_normalized E sl data = Inr normalized \<longrightarrow>
          getPostBySlug E fs sl = Inr \<lparr> post_frontMatter = normalized, post_content = tree \<rparr>)
    \<and> (\<forall>entries raw.
          content_dir_of fs = Some entries \<and> map_of entries (sl @ ''.mdx'') = Some (File raw) \<longrightarrow>
          getPostBySlug E fs sl =
            bindE (matter E raw) (\<lambda>split.
            bindE (compileMDX E (snd split)) (\<lambda>compiled.
            bindE (getPostBySlug_normalized E sl (fst split)) (\<lambda>normalized.
            Inr \<lparr> post_frontMatter = normalized, post_content = compiled \<rparr>))))"
proof -
  have path: "path_join (POSTS_DIR fs) (sl @ ''.mdx'') = POSTS_DIR fs @ [sl @ ''.mdx'']"
    using assms(1) by (rule path_join_plain)
  from assms(2) have name: "CHR 0x00 \<notin> set (sl @ ''.mdx'')"
    by simp
  have inside: "getPostBySlug E fs sl =
      bindE (readFile (Some entries) (sl @ ''.mdx'')) (\<lambda>raw.
      bindE (matter E raw) (\<lambda>split.
      bindE (compileMDX E (snd split)) (\<lambda>compiled.
      bindE (getPostBySlug_normalized E sl (fst split)) (\<lambda>normalized.
      Inr \<lparr> post_frontMatter = normalized, post_content = compiled \<rparr>))))"
    if "content_dir_of fs = Some entries" for entries
    using readFile_content_dir [OF that assms(3) name] by (simp add: getPostBySlug_def path)
  have missing: "getPostBySlug E fs sl = Inl ENOENT"
    if "content_dir_of fs = Some entries \<and> map_of entries (sl @ ''.mdx'') = None" for entries
    using that inside [of entries] by (simp add: readFile_def)
  have directory: "getPostBySlug E fs sl = Inl EISDIR"
    if "content_dir_of fs = Some entries \<and> map_of entries (sl @ ''.mdx'') = Some Directory"
    for entries
    using that inside [of entries] by (simp add: readFile_def)
  have nodir: "\<exists>e. getPostBySlug E fs sl = Inl e" if "content_dir_of fs = None"
    using readFile_no_content_dir [OF that, of "sl @ ''.mdx''"]
    by (auto simp: getPostBySlug_def path)
  have existing: "getPostBySlug E fs sl =
            bindE (matter E raw) (\<lambda>split.
            bindE (compileMDX E (snd split)) (\<lambda>compiled.
            bindE (getPostBySlug_normalized E sl (fst split)) (\<lambda>normalized.
            Inr \<lparr> post_frontMatter = normalized, post_content = compiled \<rparr>)))"
    if "content_dir_of fs = Some entries \<and> map_of entries (sl @ ''.mdx'') = Some (File raw)"
    for entries raw
    using that inside [of entries] by (simp add: readFile_def)
  have returns: "getPostBySlug E fs sl = Inr \<lparr> post_frontMatter = normalized, post_content = tree \<rparr>"
    if "content_dir_of fs = Some entries \<and> map_of entries (sl @ ''.mdx'') = Some (File raw)
          \<and> matter E raw = Inr (data, body) \<and> compileMDX E body = Inr tree
          \<and> getPostBySlug_normalized E sl data = Inr normalized"
    for entries raw data body tree normalized
    using that existing [of entries raw] by simp
  have complete: "\<exists>entries raw data body.
             content_dir_of fs = Some entries \<and> map_of entries (sl @ ''.mdx'') = Some (File raw)
             \<and> matter E raw = Inr (data, body)
             \<and> compileMDX E body = Inr (post_content post)
             \<and> getPostBySlug_normalized E sl data = Inr (post_frontMatter post)"
    if ok: "getPostBySlug E fs sl = Inr post" for post
  proof (cases "content_dir_of fs")
    case None
    from nodir [OF None] ok show ?thesis by auto
  next
    case (Some entries)
    from ok inside [OF Some] obtain raw split tree normalized where
      r: "readFile (Some entries) (sl @ ''.mdx'') = Inr raw"
      and m: "matter E raw = Inr split"
      and c: "compileMDX E (snd split) = Inr tree"
      and n: "getPostBySlug_normalized E sl (fst split) = Inr normalized"
      and p: "post = \<lparr> post_frontMatter = normalized, post_content = tree \<rparr>"
      by (auto simp: bindE_eq_Inr)
    from r have "map_of entries (sl @ ''.mdx'') = Some (File raw)"
      by (auto simp: readFile_def split: option.splits entry.splits)
    with Some m c n p show ?thesis
      by (cases split) auto
  qed
  from missing directory nodir complete returns existing show ?thesis
    by blast
qed

theorem getPostBySlug_plain_slug_witness:
  "CHR ''/'' \<notin> set ''nope'' \<and> CHR ''/'' \<notin> set ''new'' \<and> CHR ''/'' \<notin> set ''drafts''
   \<and> CHR 0x00 \<notin> set ''nope'' \<and> CHR 0x00 \<notin> set ''new'' \<and> CHR 0x00 \<notin> set ''drafts''
   \<and> CHR 0x00 \<notin> set (concat (cwd example_fs))
   \<and> content_dir_of example_fs = example_dir
   \<and> map_of (the example_dir) (''nope'' @ ''.mdx'') = None
   \<and> getPostBySlug env0 example_fs ''nope'' = Inl ENOENT
   \<and> getPostBySlug env0 example_fs ''drafts'' = Inl EISDIR
   \<and> getPostBySlug env0 example_fs ''new'' =
       Inr \<lparr> post_frontMatter = frontMatter example_new, post_content = ''second post'' \<rparr>"
proof -
  let ?data = "[(''title'', JStr ''New''), (''date'', JStr ''2024-03-01''),
      (''category'', JStr ''Frontend''), (''tags'', JArr [JStr ''a'', JNum (Finite 2)])]"
  have plain: "CHR ''/'' \<notin> set ''nope''" "CHR ''/'' \<notin> set ''new''" "CHR ''/'' \<notin> set ''drafts''"
    by simp_all
  have nul: "CHR 0x00 \<notin> set ''nope''" "CHR 0x00 \<notin> set ''new''" "CHR 0x00 \<notin> set ''drafts''"
    by simp_all
  have wd: "CHR 0x00 \<notin> set (concat (cwd example_fs))"
    by (simp add: example_fs_def)
  have dir: "content_dir_of example_fs = Some (the example_dir)"
    by (simp add: content_dir_of_example example_dir_def)
  have none: "map_of (the example_dir) (''nope'' @ ''.mdx'') = None"
    and drafts: "map_of (the example_dir) (''drafts'' @ ''.mdx'') = Some Directory"
    and new: "map_of (the example_dir) (''new'' @ ''.mdx'') = Some (File (?data, ''second post''))"
    by (simp_all add: example_dir_def)
  from getPostBySlug_plain_slug [OF plain(1) nul(1) wd, of env0] dir none
  have a: "getPostBySlug env0 example_fs ''nope'' = Inl ENOENT"
    by blast
  from getPostBySlug_plain_slug [OF plain(3) nul(3) wd, of env0] dir drafts
  have b: "getPostBySlug env0 example_fs ''drafts'' = Inl EISDIR"
    by blast
  have "matter env0 (?data, ''second post'') = Inr (?data, ''second post'')
      \<and> compileMDX env0 ''second post'' = Inr ''second post''"
    by (simp add: env0_def)
  with getPostBySlug_plain_slug [OF plain(2) nul(2) wd, of env0] dir new normalized_new_by_slug
  have c: "getPostBySlug env0 example_fs ''new'' =
       Inr \<lparr> post_frontMatter = frontMatter example_new, post_content = ''second post'' \<rparr>"
    by blast
  from plain nul wd content_dir_of_example none a b c show ?thesis by simp
qed

text \<open>
  The slug \<^verbatim>\<open>../outside\<close> is no document of the content directory: \<^verbatim>\<open>getPostSlugs\<close> does
  not list it and the directory has no entry of that name. \<^verbatim>\<open>path.join\<close> resolves it to
  \<^verbatim>\<open>src/outside.mdx\<close>, and \<open>getPostBySlug\<close> returns the record of that file.
\<close>

theorem getPostBySlug_traversal_counterexample:
  "getPostSlugs (content_dir_of example_fs) = Inr [''old'', ''new'', ''mid'']
   \<and> map_of (the (content_dir_of example_fs)) (''../outside'' @ ''.mdx'') = None
   \<and> path_join (POSTS_DIR example_fs) (''../outside'' @ ''.mdx'') = [''app'', ''src'', ''outside.mdx'']
   \<and> getPostBySlug env0 example_fs ''../outside'' =
       Inr \<lparr> post_frontMatter = outside_frontMatter, post_content = ''not a post'' \<rparr>"
proof -
  have slugs: "getPostSlugs (content_dir_of example_fs) = Inr [''old'', ''new'', ''mid'']"
    unfolding content_dir_of_example
    by (simp add: getPostSlugs_def readdir_def example_dir_def endsWith_def strip_mdx_def)
  have none: "map_of (the (content_dir_of example_fs)) (''../outside'' @ ''.mdx'') = None"
    unfolding content_dir_of_example by (simp add: example_dir_def)
  have path: "path_join (POSTS_DIR example_fs) (''../outside'' @ ''.mdx'')
      = [''app'', ''src'', ''outside.mdx'']"
    by (simp add: path_join_def POSTS_DIR_def example_fs_def)
  have read: "fs_readFile example_fs [''app'', ''src'', ''outside.mdx'']
      = Inr ([(''title'', JStr ''Outside'')], ''not a post'')"
    by (simp add: fs_readFile_def example_fs_def)
  have matter0: "matter env0 = Inr" and compile0: "compileMDX env0 = Inr"
    by (simp_all add: env0_def)
  have post: "getPostBySlug env0 example_fs ''../outside'' =
       Inr \<lparr> post_frontMatter = outside_frontMatter, post_content = ''not a post'' \<rparr>"
    unfolding getPostBySlug_def path read
    by (simp add: matter0 compile0 normalized_outside)
  from slugs none path post show ?thesis by simp
qed

end
